theory Spec2Isabelle
  imports Main "HOL-Library.Sublist"
begin

section \<open>Go library functions used by \<^verbatim>\<open>cmd/cf/main.go\<close>\<close>

text \<open>
  A Go \<^verbatim>\<open>string\<close> is a sequence of bytes, modelled as \<^typ>\<open>string\<close> (a list of 8-bit
  characters). \<^verbatim>\<open>strings.TrimSpace\<close> removes the leading and the trailing white space
  runes in the sense of \<^verbatim>\<open>unicode.IsSpace\<close>. On the UTF-8 bytes these are the six
  ASCII bytes and the encodings of U+0085, U+00A0, U+1680, U+2000..U+200A, U+2028,
  U+2029, U+202F, U+205F and U+3000; a byte sequence that is no valid encoding decodes
  to U+FFFD, which is not white space, so trimming stops there.
\<close>

definition spaceRunes :: "string list" where
  "spaceRunes =
     [[CHR 0x09], [CHR 0x0A], [CHR 0x0B], [CHR 0x0C], [CHR 0x0D], [CHR 0x20],
      [CHR 0xC2, CHR 0x85], [CHR 0xC2, CHR 0xA0],
      [CHR 0xE1, CHR 0x9A, CHR 0x80],
      [CHR 0xE2, CHR 0x80, CHR 0x80], [CHR 0xE2, CHR 0x80, CHR 0x81],
      [CHR 0xE2, CHR 0x80, CHR 0x82], [CHR 0xE2, CHR 0x80, CHR 0x83],
      [CHR 0xE2, CHR 0x80, CHR 0x84], [CHR 0xE2, CHR 0x80, CHR 0x85],
      [CHR 0xE2, CHR 0x80, CHR 0x86], [CHR 0xE2, CHR 0x80, CHR 0x87],
      [CHR 0xE2, CHR 0x80, CHR 0x88], [CHR 0xE2, CHR 0x80, CHR 0x89],
      [CHR 0xE2, CHR 0x80, CHR 0x8A],
      [CHR 0xE2, CHR 0x80, CHR 0xA8], [CHR 0xE2, CHR 0x80, CHR 0xA9],
      [CHR 0xE2, CHR 0x80, CHR 0xAF],
      [CHR 0xE2, CHR 0x81, CHR 0x9F],
      [CHR 0xE3, CHR 0x80, CHR 0x80]]"

text \<open>\<open>trimRunes rs s\<close> drops from the front of \<open>s\<close> every leading occurrence of a member of \<open>rs\<close>.\<close>

function trimRunes :: "string list \<Rightarrow> string \<Rightarrow> string" where
  "trimRunes rs s =
     (case find (\<lambda>r. r \<noteq> [] \<and> prefix r s) rs of
        None \<Rightarrow> s
      | Some r \<Rightarrow> trimRunes rs (drop (length r) s))"
  by pat_completeness auto
termination
proof (relation "measure (\<lambda>(rs, s). length s)")
  show "wf (measure (\<lambda>(rs, s). length s))" by simp
next
  fix rs :: "string list" and s r :: string
  assume "find (\<lambda>r. r \<noteq> [] \<and> prefix r s) rs = Some r"
  then have "r \<noteq> []" and "prefix r s"
    by (auto simp: find_Some_iff)
  then have "s \<noteq> []" and "0 < length r"
    by auto
  then show "((rs, drop (length r) s), (rs, s)) \<in> measure (\<lambda>(rs, s). length s)"
    by simp
qed

declare trimRunes.simps [simp del]

definition TrimSpace :: "string \<Rightarrow> string" where
  "TrimSpace s = rev (trimRunes (map rev spaceRunes) (rev (trimRunes spaceRunes s)))"

text \<open>\<^verbatim>\<open>strings.HasPrefix\<close> and \<^verbatim>\<open>strings.Contains\<close>.\<close>

fun HasPrefix :: "string \<Rightarrow> string \<Rightarrow> bool" where
  "HasPrefix s [] = True"
| "HasPrefix [] (p # ps) = False"
| "HasPrefix (c # cs) (p # ps) = (c = p \<and> HasPrefix cs ps)"

fun Contains :: "string \<Rightarrow> string \<Rightarrow> bool" where
  "Contains [] substr = (substr = [])"
| "Contains (c # cs) substr = (HasPrefix (c # cs) substr \<or> Contains cs substr)"

text \<open>\<^verbatim>\<open>strings.Join\<close>.\<close>

fun Join :: "string list \<Rightarrow> string \<Rightarrow> string" where
  "Join [] sep = []"
| "Join [x] sep = x"
| "Join (x # y # ys) sep = x @ sep @ Join (y # ys) sep"

text \<open>The verb \<^verbatim>\<open>%d\<close> of \<^verbatim>\<open>fmt\<close>: the decimal digits of an integer.\<close>

definition digitChar :: "nat \<Rightarrow> char" where
  "digitChar d = ''0123456789'' ! d"

function decimal :: "nat \<Rightarrow> string" where
  "decimal n = (if n < 10 then [digitChar n] else decimal (n div 10) @ [digitChar (n mod 10)])"
  by pat_completeness auto
termination
  by (relation "measure (\<lambda>n. n)") auto

declare decimal.simps [simp del]

definition Itoa :: "int \<Rightarrow> string" where
  "Itoa i = (if i < 0 then CHR ''-'' # decimal (nat (- i)) else decimal (nat i))"

section \<open>Data model\<close>

text \<open>
  A Go \<^verbatim>\<open>error\<close> made by \<^verbatim>\<open>errors.New\<close> or \<^verbatim>\<open>fmt.Errorf\<close> is a pointer to an immutable
  object: two errors are the same value when they are the same object, whatever their
  text. An error is modelled as its address together with its message (what
  \<^verbatim>\<open>err.Error()\<close> returns).
\<close>

datatype goerror = GoError (errAddr: nat) (Error: string)

record apiError =
  Code :: int
  Message :: string

record apiResponse =
  Success :: bool
  Errors :: "apiError list"
  Result :: string

record zone =
  zoneID :: string
  zoneName :: string
  zoneStatus :: string

text \<open>One entry of the \<^verbatim>\<open>result\<close> array of the memberships payload: its \<^verbatim>\<open>account\<close> member.\<close>

record account =
  accountID :: string
  accountName :: string

record membershipsPayload =
  mSuccess :: bool
  mErrors :: "apiError list"
  mResult :: "account list"

datatype httpMethod = MethodGet | MethodPost

text \<open>
  The request bodies the program builds: none, or the map that \<^verbatim>\<open>addZone\<close> passes, which
  holds the account id and the domain beside the constants \<^verbatim>\<open>jump_start: true\<close> and
  \<^verbatim>\<open>type: "full"\<close>.
\<close>

datatype requestBody = NoBody | ZoneCreateBody string string

record httpRequest =
  reqMethod :: httpMethod
  reqURL :: string
  reqAuthorization :: string
  reqContentType :: string
  reqBody :: requestBody

record httpResponse =
  StatusCode :: nat
  Body :: string

text \<open>
  Everything outside the program: the process environment, the external commands, the
  remote API and the library decoders of \<^verbatim>\<open>encoding/json\<close> and \<^verbatim>\<open>net/url\<close>. A command
  and an HTTP exchange may answer differently each time, so both take the number of
  earlier invocations. \<open>httpDo\<close> stands for \<^verbatim>\<open>http.NewRequest\<close> followed by
  \<^verbatim>\<open>http.DefaultClient.Do\<close>; an error of either is its \<open>Inl\<close>.
\<close>

record world =
  environ :: "string \<rightharpoonup> string"
  cmdOutput :: "nat \<Rightarrow> string \<Rightarrow> string list \<Rightarrow> goerror + string"
  httpDo :: "nat \<Rightarrow> httpRequest \<Rightarrow> goerror + httpResponse"
  unmarshalToken :: "string \<Rightarrow> goerror + string"
  decodeMemberships :: "string \<Rightarrow> goerror + membershipsPayload"
  decodeAPIResponse :: "string \<Rightarrow> goerror + apiResponse"
  unmarshalZone :: "string \<Rightarrow> goerror + zone"
  unmarshalZones :: "string \<Rightarrow> goerror + zone list"
  QueryEscape :: "string \<Rightarrow> string"

text \<open>
  The state of one process run: the two package-level caches, the number of error
  objects allocated so far, the commands run, the requests sent and the lines printed.
\<close>

record state =
  cachedAPIToken :: string
  cachedAccountID :: string
  errCount :: nat
  cmdLog :: "(string \<times> string list) list"
  httpLog :: "httpRequest list"
  stdout :: "string list"

text \<open>At process start both caches hold Go's zero value, the empty string.\<close>

definition initialState :: state where
  "initialState =
     \<lparr>cachedAPIToken = [], cachedAccountID = [], errCount = 0, cmdLog = [], httpLog = [],
      stdout = []\<rparr>"

definition apiBase :: string where
  "apiBase = ''https://api.cloudflare.com/client/v4''"

text \<open>\<^verbatim>\<open>os.Getenv\<close>: the value of the variable, empty when it is not present.\<close>

definition Getenv :: "world \<Rightarrow> string \<Rightarrow> string" where
  "Getenv w k = (case environ w k of None \<Rightarrow> [] | Some v \<Rightarrow> v)"

text \<open>\<^verbatim>\<open>errors.New\<close> and \<^verbatim>\<open>fmt.Errorf\<close>: a new error object at the next free address.\<close>

definition newError :: "string \<Rightarrow> state \<Rightarrow> goerror \<times> state" where
  "newError m s = (GoError (errCount s) m, s\<lparr>errCount := Suc (errCount s)\<rparr>)"

definition failWith :: "string \<Rightarrow> state \<Rightarrow> (goerror + 'a) \<times> state" where
  "failWith m s = (case newError m s of (e, s') \<Rightarrow> (Inl e, s'))"

text \<open>\<^verbatim>\<open>exec.Command(name, args...).Output()\<close>.\<close>

definition runCommand :: "world \<Rightarrow> string \<Rightarrow> string list \<Rightarrow> state \<Rightarrow> (goerror + string) \<times> state" where
  "runCommand w name args s =
     (cmdOutput w (length (cmdLog s)) name args, s\<lparr>cmdLog := cmdLog s @ [(name, args)]\<rparr>)"

definition httpSend :: "world \<Rightarrow> httpRequest \<Rightarrow> state \<Rightarrow> (goerror + httpResponse) \<times> state" where
  "httpSend w req s = (httpDo w (length (httpLog s)) req, s\<lparr>httpLog := httpLog s @ [req]\<rparr>)"

definition printLine :: "string \<Rightarrow> state \<Rightarrow> state" where
  "printLine l s = s\<lparr>stdout := stdout s @ [l]\<rparr>"

section \<open>Credential resolution\<close>

definition tokenFromWrangler :: "world \<Rightarrow> state \<Rightarrow> (goerror + string) \<times> state" where
  "tokenFromWrangler w s =
     (case runCommand w ''wrangler'' [''auth'', ''token'', ''--json''] s of
        (Inl err, s1) \<Rightarrow> (Inl err, s1)
      | (Inr out, s1) \<Rightarrow>
          (case unmarshalToken w out of
             Inl err \<Rightarrow> (Inl err, s1)
           | Inr tok \<Rightarrow>
               if TrimSpace tok = []
               then failWith ''wrangler token output did not include token field'' s1
               else (Inr tok, s1)))"

definition missingTokenMessage :: string where
  "missingTokenMessage =
     ''missing API token. set CF_API_TOKEN (or CLOUDFLARE_API_TOKEN), or login via Wrangler''"

definition resolveAPIToken :: "world \<Rightarrow> state \<Rightarrow> (goerror + string) \<times> state" where
  "resolveAPIToken w s =
     (if cachedAPIToken s \<noteq> [] then (Inr (cachedAPIToken s), s)
      else if TrimSpace (Getenv w ''CF_API_TOKEN'') \<noteq> []
      then (Inr (TrimSpace (Getenv w ''CF_API_TOKEN'')),
            s\<lparr>cachedAPIToken := TrimSpace (Getenv w ''CF_API_TOKEN'')\<rparr>)
      else if TrimSpace (Getenv w ''CLOUDFLARE_API_TOKEN'') \<noteq> []
      then (Inr (TrimSpace (Getenv w ''CLOUDFLARE_API_TOKEN'')),
            s\<lparr>cachedAPIToken := TrimSpace (Getenv w ''CLOUDFLARE_API_TOKEN'')\<rparr>)
      else (case tokenFromWrangler w s of
              (Inr token, s1) \<Rightarrow>
                if token \<noteq> [] then (Inr token, s1\<lparr>cachedAPIToken := token\<rparr>)
                else failWith missingTokenMessage s1
            | (Inl err, s1) \<Rightarrow> failWith missingTokenMessage s1))"

definition formatAPIErrors :: "apiError list \<Rightarrow> nat \<Rightarrow> state \<Rightarrow> goerror \<times> state" where
  "formatAPIErrors errs status s =
     (if length errs = 0
      then newError (''Cloudflare API request failed (HTTP '' @ Itoa (int status) @ '')'') s
      else newError (Join (map (\<lambda>e. Itoa (Code e) @ '': '' @ Message e) errs) ''; '') s)"

definition inferAccountIDFromMemberships ::
  "world \<Rightarrow> string \<Rightarrow> state \<Rightarrow> (goerror + string) \<times> state" where
  "inferAccountIDFromMemberships w token s =
     (case httpSend w
             \<lparr>reqMethod = MethodGet, reqURL = apiBase @ ''/memberships'',
              reqAuthorization = ''Bearer '' @ token, reqContentType = ''application/json'',
              reqBody = NoBody\<rparr> s of
        (Inl err, s1) \<Rightarrow> (Inl err, s1)
      | (Inr resp, s1) \<Rightarrow>
          (case decodeMemberships w (Body resp) of
             Inl err \<Rightarrow> (Inl err, s1)
           | Inr payload \<Rightarrow>
               if StatusCode resp \<ge> 400 \<or> \<not> mSuccess payload
               then (case formatAPIErrors (mErrors payload) (StatusCode resp) s1 of
                       (e, s2) \<Rightarrow> (Inl e, s2))
               else if length (mResult payload) = 0
               then failWith ''no Cloudflare account memberships found for token'' s1
               else if length (mResult payload) = 1
               then (Inr (accountID (mResult payload ! 0)), s1)
               else failWith
                      (''multiple accounts found; set CF_ACCOUNT_ID. available: '' @
                       Join (map (\<lambda>item. accountName item @ '' ('' @ accountID item @ '')'')
                               (mResult payload)) '', '') s1))"

definition resolveAccountID :: "world \<Rightarrow> state \<Rightarrow> (goerror + string) \<times> state" where
  "resolveAccountID w s =
     (if cachedAccountID s \<noteq> [] then (Inr (cachedAccountID s), s)
      else if TrimSpace (Getenv w ''CF_ACCOUNT_ID'') \<noteq> []
      then (Inr (TrimSpace (Getenv w ''CF_ACCOUNT_ID'')),
            s\<lparr>cachedAccountID := TrimSpace (Getenv w ''CF_ACCOUNT_ID'')\<rparr>)
      else if TrimSpace (Getenv w ''CLOUDFLARE_ACCOUNT_ID'') \<noteq> []
      then (Inr (TrimSpace (Getenv w ''CLOUDFLARE_ACCOUNT_ID'')),
            s\<lparr>cachedAccountID := TrimSpace (Getenv w ''CLOUDFLARE_ACCOUNT_ID'')\<rparr>)
      else (case resolveAPIToken w s of
              (Inl err, s1) \<Rightarrow> (Inl err, s1)
            | (Inr token, s1) \<Rightarrow>
                (case inferAccountIDFromMemberships w token s1 of
                   (Inl err, s2) \<Rightarrow> (Inl err, s2)
                 | (Inr acct, s2) \<Rightarrow> (Inr acct, s2\<lparr>cachedAccountID := acct\<rparr>))))"

section \<open>Requests and zones\<close>

text \<open>
  \<^verbatim>\<open>requestCF\<close>. The bodies it is given are maps of strings and booleans, which
  \<^verbatim>\<open>json.Marshal\<close> always encodes, so that step has no error branch here.
\<close>

definition requestCF ::
  "world \<Rightarrow> httpMethod \<Rightarrow> string \<Rightarrow> requestBody \<Rightarrow> state \<Rightarrow> (goerror + apiResponse) \<times> state" where
  "requestCF w method path body s =
     (case resolveAPIToken w s of
        (Inl err, s1) \<Rightarrow> (Inl err, s1)
      | (Inr token, s1) \<Rightarrow>
          (case httpSend w
                  \<lparr>reqMethod = method, reqURL = apiBase @ path,
                   reqAuthorization = ''Bearer '' @ token,
                   reqContentType = ''application/json'', reqBody = body\<rparr> s1 of
             (Inl err, s2) \<Rightarrow> (Inl err, s2)
           | (Inr resp, s2) \<Rightarrow>
               (case decodeAPIResponse w (Body resp) of
                  Inl err \<Rightarrow> (Inl err, s2)
                | Inr out \<Rightarrow>
                    if StatusCode resp \<ge> 400 \<or> \<not> Success out
                    then (case formatAPIErrors (Errors out) (StatusCode resp) s2 of
                            (e, s3) \<Rightarrow> (Inl e, s3))
                    else (Inr out, s2))))"

text \<open>\<^verbatim>\<open>getZoneByName\<close>: \<open>None\<close> is the \<^verbatim>\<open>nil\<close> zone returned when the list is empty.\<close>

definition getZoneByName :: "world \<Rightarrow> string \<Rightarrow> state \<Rightarrow> (goerror + zone option) \<times> state" where
  "getZoneByName w name s =
     (case resolveAccountID w s of
        (Inl err, s1) \<Rightarrow> (Inl err, s1)
      | (Inr acct, s1) \<Rightarrow>
          (case requestCF w MethodGet
                  (''/zones?account.id='' @ QueryEscape w acct @ ''&name='' @
                   QueryEscape w name @ ''&per_page=1'') NoBody s1 of
             (Inl err, s2) \<Rightarrow> (Inl err, s2)
           | (Inr resp, s2) \<Rightarrow>
               (case unmarshalZones w (Result resp) of
                  Inl err \<Rightarrow> (Inl err, s2)
                | Inr zones \<Rightarrow>
                    (case zones of
                       [] \<Rightarrow> (Inr None, s2)
                     | z # _ \<Rightarrow> (Inr (Some z), s2)))))"

definition zoneLine :: "string \<Rightarrow> zone \<Rightarrow> string" where
  "zoneLine what z =
     what @ zoneName z @ '' (id='' @ zoneID z @ '', status='' @ zoneStatus z @ '')'' @ [CHR 0x0A]"

text \<open>
  \<^verbatim>\<open>addZone\<close> returns a zone or an error, never both and never neither: every
  \<^verbatim>\<open>return\<close> of the source has exactly one of the two non-nil.
\<close>

definition addZone :: "world \<Rightarrow> string \<Rightarrow> state \<Rightarrow> (goerror + zone) \<times> state" where
  "addZone w domain s =
     (case resolveAccountID w s of
        (Inl err, s1) \<Rightarrow> (Inl err, s1)
      | (Inr acct, s1) \<Rightarrow>
          (case requestCF w MethodPost ''/zones'' (ZoneCreateBody acct domain) s1 of
             (Inr resp, s2) \<Rightarrow>
               (case unmarshalZone w (Result resp) of
                  Inl unmarshalErr \<Rightarrow> (Inl unmarshalErr, s2)
                | Inr z \<Rightarrow> (Inr z, printLine (zoneLine ''Zone created: '' z) s2))
           | (Inl err, s2) \<Rightarrow>
               if Contains (Error err) ''1061''
               then (case getZoneByName w domain s2 of
                       (Inl existingErr, s3) \<Rightarrow> (Inl existingErr, s3)
                     | (Inr (Some existing), s3) \<Rightarrow>
                         (Inr existing, printLine (zoneLine ''Zone already exists: '' existing) s3)
                     | (Inr None, s3) \<Rightarrow> (Inl err, s3))
               else (Inl err, s2)))"

section \<open>Diagnosis of a zone-creation permission error\<close>

text \<open>
  The strings the tests \<^verbatim>\<open>TestExplainZoneCreatePermissionError_APIEnv\<close> and
  \<^verbatim>\<open>TestExplainZoneCreatePermissionError_Wrangler\<close> look for in the message.
\<close>

definition envModeMarker :: string where
  "envModeMarker = ''Auth mode detected: API token from environment''"

definition envRemediation :: string where
  "envRemediation = ''Use a token with zone-creation capability''"

definition toolModeMarker :: string where
  "toolModeMarker = ''Auth mode detected: Wrangler token fallback''"

text \<open>
  Modelled from the spec: the wording it leaves to the implementation, which is missing
  from the source with the function that uses it. These are the signature looked for in
  the message, the restated summary of the original error, and the rest of the
  remediation text of each mode (separators included).
\<close>

record guidance =
  signature :: string
  summary :: "string \<Rightarrow> string"
  envSteps :: string
  toolSteps :: string

text \<open>
  Modelled from the spec: the enumeration \<^verbatim>\<open>AuthMode\<close> of its data model, which path
  supplies the active token. The source has no such type.
\<close>

datatype AuthMode = EnvironmentToken | ExternalToolFallback

text \<open>
  Modelled from the spec: the source has no function that names the active mode. The mode
  is found by repeating the environment-variable checks of \<^verbatim>\<open>resolveAPIToken\<close> on the
  environment as it is now; the caches are not consulted.
\<close>

definition detectAuthMode :: "world \<Rightarrow> AuthMode" where
  "detectAuthMode w =
     (if TrimSpace (Getenv w ''CF_API_TOKEN'') \<noteq> [] \<or>
         TrimSpace (Getenv w ''CLOUDFLARE_API_TOKEN'') \<noteq> []
      then EnvironmentToken else ExternalToolFallback)"

text \<open>
  Modelled from the spec: \<^verbatim>\<open>explainZoneCreatePermissionError\<close> and the \<^verbatim>\<open>cmdRunner\<close>
  variable it calls are missing from the source, which holds only their tests. An error
  whose message lacks the signature is returned as it is. Otherwise the result is a new
  error whose message is the concatenation of the summary of the original error, the mode
  line, the remediation text and, in the fallback mode, the raw output of
  \<^verbatim>\<open>wrangler whoami\<close> when that command succeeds (nothing when it fails). The command
  goes through the same seam as every other command, \<open>runCommand\<close>.
\<close>

definition explainZoneCreatePermissionError ::
  "guidance \<Rightarrow> world \<Rightarrow> goerror \<Rightarrow> state \<Rightarrow> goerror \<times> state" where
  "explainZoneCreatePermissionError g w err s =
     (if \<not> Contains (Error err) (signature g) then (err, s)
      else (case detectAuthMode w of
              EnvironmentToken \<Rightarrow>
                newError (summary g (Error err) @ envModeMarker @ envRemediation @ envSteps g) s
            | ExternalToolFallback \<Rightarrow>
                (case runCommand w ''wrangler'' [''whoami''] s of
                   (Inr out, s1) \<Rightarrow>
                     newError (summary g (Error err) @ toolModeMarker @ toolSteps g @ out) s1
                 | (Inl _, s1) \<Rightarrow>
                     newError (summary g (Error err) @ toolModeMarker @ toolSteps g) s1)))"

section \<open>Whitespace\<close>

text \<open>
  A value consists only of white space when it is a sequence of white space runes. The
  empty value is the case of no rune at all.
\<close>

definition onlySpace :: "string \<Rightarrow> bool" where
  "onlySpace v = (\<exists>ws. set ws \<subseteq> set spaceRunes \<and> v = concat ws)"

text \<open>Removing a variable from the environment.\<close>

definition unsetenv :: "world \<Rightarrow> string \<Rightarrow> world" where
  "unsetenv w k = w\<lparr>environ := (environ w)(k := None)\<rparr>"

section \<open>Scenarios\<close>

text \<open>
  Concrete worlds on which the theorems below are instantiated. \<open>tokenField\<close> decodes
  the one-member objects \<^verbatim>\<open>{"token":"..."}\<close> whose value has no escape, and stands for
  \<^verbatim>\<open>json.Unmarshal\<close> there. In \<open>offlineWorld\<close> no variable is set, no command can be run
  and no request gets through.
\<close>

definition tokenField :: "string \<Rightarrow> goerror + string" where
  \<open>tokenField b =
     (let tok = takeWhile (\<lambda>c. c \<noteq> CHR 0x22) (drop 10 b) in
      if take 10 b = ''{"token":"'' \<and> drop (10 + length tok) b = ''"}''
      then Inr tok else Inl (GoError 903 ''invalid character in JSON input''))\<close>

definition offlineWorld :: world where
  "offlineWorld =
     \<lparr>environ = Map.empty,
      cmdOutput = (\<lambda>n name args. Inl (GoError 900 ''exec: executable file not found in $PATH'')),
      httpDo = (\<lambda>n req. Inl (GoError 901 ''dial tcp: connection refused'')),
      unmarshalToken = tokenField,
      decodeMemberships = (\<lambda>b. Inl (GoError 902 ''unexpected end of JSON input'')),
      decodeAPIResponse = (\<lambda>b. Inl (GoError 902 ''unexpected end of JSON input'')),
      unmarshalZone = (\<lambda>b. Inl (GoError 902 ''unexpected end of JSON input'')),
      unmarshalZones = (\<lambda>b. Inl (GoError 902 ''unexpected end of JSON input'')),
      QueryEscape = (\<lambda>v. v)\<rparr>"

text \<open>Wrangler is installed and logged in; no variable is set.\<close>

definition wranglerWorld :: world where
  \<open>wranglerWorld =
     offlineWorld\<lparr>cmdOutput := (\<lambda>n name args.
        if name = ''wrangler'' \<and> args = [''auth'', ''token'', ''--json'']
        then Inr ''{"token":"tok-123"}''
        else if name = ''wrangler'' \<and> args = [''whoami'']
        then Inr ''You are logged in with account example-account''
        else Inl (GoError 900 ''exec: executable file not found in $PATH''))\<rparr>\<close>

text \<open>Both token variables are set; the primary one has blanks around its value.\<close>

definition envWorld :: world where
  "envWorld =
     offlineWorld\<lparr>environ := [''CF_API_TOKEN'' \<mapsto> '' test-token '',
                              ''CLOUDFLARE_API_TOKEN'' \<mapsto> ''alias-token'']\<rparr>"

text \<open>The primary token variable holds two blanks, the alias a token.\<close>

definition aliasWorld :: world where
  "aliasWorld =
     offlineWorld\<lparr>environ := [''CF_API_TOKEN'' \<mapsto> ''  '',
                              ''CLOUDFLARE_API_TOKEN'' \<mapsto> ''alias-token'']\<rparr>"

text \<open>
  The token comes from the environment and the memberships endpoint answers with the given
  accounts.
\<close>

definition membershipsWorld :: "account list \<Rightarrow> world" where
  "membershipsWorld accts =
     envWorld\<lparr>httpDo := (\<lambda>n req.
        if reqMethod req = MethodGet \<and> reqURL req = apiBase @ ''/memberships''
        then Inr \<lparr>StatusCode = 200, Body = ''memberships''\<rparr>
        else Inl (GoError 901 ''dial tcp: connection refused'')),
      decodeMemberships := (\<lambda>b. Inr \<lparr>mSuccess = True, mErrors = [], mResult = accts\<rparr>)\<rparr>"

definition acme :: account where
  "acme = \<lparr>accountID = ''a1b2'', accountName = ''Acme''\<rparr>"

definition globex :: account where
  "globex = \<lparr>accountID = ''c3d4'', accountName = ''Globex Corp''\<rparr>"

text \<open>The primary account variable holds a tab and a no-break space, the alias an id.\<close>

definition blankAccountWorld :: world where
  "blankAccountWorld =
     envWorld\<lparr>environ := [''CF_ACCOUNT_ID'' \<mapsto> [CHR 0x09, CHR 0xC2, CHR 0xA0],
                          ''CLOUDFLARE_ACCOUNT_ID'' \<mapsto> ''acct-9'']\<rparr>"

text \<open>
  Token and account come from the environment. The API answers every \<^verbatim>\<open>POST\<close> with the
  given status and errors; a \<^verbatim>\<open>GET\<close> fails with the given error or returns the given
  zones.
\<close>

definition accountWorld :: world where
  "accountWorld =
     offlineWorld\<lparr>environ := [''CF_API_TOKEN'' \<mapsto> ''test-token'',
                              ''CF_ACCOUNT_ID'' \<mapsto> ''acct-9'']\<rparr>"

definition rejectingWorld :: "nat \<Rightarrow> apiError list \<Rightarrow> goerror + zone list \<Rightarrow> world" where
  "rejectingWorld status errs lookup =
     accountWorld\<lparr>
       httpDo := (\<lambda>n req.
         if reqMethod req = MethodPost
         then Inr \<lparr>StatusCode = status, Body = ''rejected''\<rparr>
         else (case lookup of
                 Inl e \<Rightarrow> Inl e
               | Inr zs \<Rightarrow> Inr \<lparr>StatusCode = 200, Body = ''zones''\<rparr>)),
       decodeAPIResponse := (\<lambda>b.
         if b = ''rejected''
         then Inr \<lparr>Success = False, Errors = errs, Result = ''null''\<rparr>
         else Inr \<lparr>Success = True, Errors = [], Result = ''zones''\<rparr>),
       unmarshalZones := (\<lambda>b.
         case lookup of
           Inl e \<Rightarrow> Inl (GoError 902 ''unexpected end of JSON input'')
         | Inr zs \<Rightarrow> Inr zs)\<rparr>"

definition zoneExists :: apiError where
  "zoneExists = \<lparr>Code = 1061, Message = ''example.com already exists''\<rparr>"

definition notAllowed :: apiError where
  "notAllowed = \<lparr>Code = 9109, Message = ''Unauthorized to access requested resource''\<rparr>"

definition exampleZone :: zone where
  "exampleZone = \<lparr>zoneID = ''z-77'', zoneName = ''example.com'', zoneStatus = ''pending''\<rparr>"

definition refused :: goerror where
  "refused = GoError 901 ''dial tcp: connection refused''"

text \<open>
  A wording for the diagnosis, the error of the tests and an unrelated error.
\<close>

definition testGuidance :: guidance where
  "testGuidance =
     \<lparr>signature = ''com.cloudflare.api.account.zone.create'',
      summary = (\<lambda>m. ''zone creation was denied: '' @ m @ [CHR 0x0A]),
      envSteps = '' (scope Zone:Edit) and export it as CF_API_TOKEN.'' @ [CHR 0x0A],
      toolSteps = [CHR 0x0A] @ ''Log in to Wrangler with an account that may create zones, or set CF_API_TOKEN.'' @ [CHR 0x0A]\<rparr>"

definition permissionError :: goerror where
  \<open>permissionError =
     GoError 7 ''0: Requires permission "com.cloudflare.api.account.zone.create" to create zones for the selected account''\<close>

definition otherError :: goerror where
  "otherError = GoError 8 ''some other error''"

section \<open>Facts about the library functions\<close>

lemma HasPrefix_iff: "HasPrefix s p \<longleftrightarrow> prefix p s"
  by (induction s p rule: HasPrefix.induct) auto

lemma Contains_iff: "Contains s t \<longleftrightarrow> (\<exists>p q. s = p @ t @ q)"
proof (induction s)
  case Nil
  then show ?case by auto
next
  case (Cons c cs)
  show ?case
  proof
    assume "Contains (c # cs) t"
    then consider "prefix t (c # cs)" | "Contains cs t"
      by (auto simp: HasPrefix_iff)
    then show "\<exists>p q. c # cs = p @ t @ q"
    proof cases
      case 1
      then obtain q where "c # cs = t @ q" by (auto simp: prefix_def)
      then have "c # cs = [] @ t @ q" by simp
      then show ?thesis by blast
    next
      case 2
      with Cons obtain p q where "cs = p @ t @ q" by blast
      then have "c # cs = (c # p) @ t @ q" by simp
      then show ?thesis by blast
    qed
  next
    assume "\<exists>p q. c # cs = p @ t @ q"
    then obtain p q where pq: "c # cs = p @ t @ q" by blast
    show "Contains (c # cs) t"
    proof (cases p)
      case Nil
      with pq have "prefix t (c # cs)" by (simp add: prefix_def)
      then show ?thesis by (simp add: HasPrefix_iff)
    next
      case (Cons a p')
      with pq have "cs = p' @ t @ q" by simp
      with Cons.IH have "Contains cs t" by blast
      then show ?thesis by simp
    qed
  qed
qed

lemma Contains_mid: "Contains (p @ t @ q) t"
  unfolding Contains_iff by blast

lemma Contains_end: "Contains (p @ t) t"
  using Contains_mid [of p t "[]"] by simp

lemma Contains_trans: "Contains s t \<Longrightarrow> Contains t u \<Longrightarrow> Contains s u"
proof -
  assume "Contains s t" and "Contains t u"
  then obtain p q p' q' where "s = p @ t @ q" and "t = p' @ u @ q'"
    unfolding Contains_iff by blast
  then have "s = (p @ p') @ u @ (q' @ q)" by simp
  then show ?thesis unfolding Contains_iff by blast
qed

lemma Join_mem: "x \<in> set xs \<Longrightarrow> \<exists>p q. Join xs sep = p @ x @ q"
proof (induction xs sep rule: Join.induct)
  case (1 sep)
  then show ?case by simp
next
  case (2 y sep)
  then have "Join [y] sep = [] @ x @ []" by simp
  then show ?case by blast
next
  case (3 y z zs sep)
  show ?case
  proof (cases "x = y")
    case True
    then have "Join (y # z # zs) sep = [] @ x @ (sep @ Join (z # zs) sep)" by simp
    then show ?thesis by blast
  next
    case False
    with 3 obtain p q where "Join (z # zs) sep = p @ x @ q" by auto
    then have "Join (y # z # zs) sep = (y @ sep @ p) @ x @ q" by simp
    then show ?thesis by blast
  qed
qed

lemma Contains_Join: "x \<in> set xs \<Longrightarrow> Contains (Join xs sep) x"
  using Join_mem [of x xs sep] unfolding Contains_iff .

lemma spaceRunes_prefix_free:
  "\<forall>a\<in>set spaceRunes. \<forall>b\<in>set spaceRunes. prefix a b \<longrightarrow> a = b"
  by (simp add: spaceRunes_def)

lemma spaceRunes_nonempty: "r \<in> set spaceRunes \<Longrightarrow> r \<noteq> []"
  by (auto simp: spaceRunes_def)

lemma trimRunes_Nil: "trimRunes rs [] = []"
proof -
  have "find (\<lambda>r. r \<noteq> [] \<and> prefix r []) rs = None"
    by (simp add: find_None_iff)
  then show ?thesis by (simp add: trimRunes.simps)
qed

lemma TrimSpace_Nil: "TrimSpace [] = []"
  by (simp add: TrimSpace_def trimRunes_Nil)

lemma trimRunes_space_concat:
  "set ws \<subseteq> set spaceRunes \<Longrightarrow> trimRunes spaceRunes (concat ws) = []"
proof (induction ws)
  case Nil
  then show ?case by (simp add: trimRunes_Nil)
next
  case (Cons r ws)
  let ?s = "concat (r # ws)"
  have r: "r \<in> set spaceRunes" and rne: "r \<noteq> []"
    using Cons.prems spaceRunes_nonempty by auto
  have "\<exists>x\<in>set spaceRunes. x \<noteq> [] \<and> prefix x ?s"
    using r rne by auto
  then obtain r' where f: "find (\<lambda>x. x \<noteq> [] \<and> prefix x ?s) spaceRunes = Some r'"
    by (cases "find (\<lambda>x. x \<noteq> [] \<and> prefix x ?s) spaceRunes") (auto simp: find_None_iff)
  then have r': "r' \<in> set spaceRunes" and p': "prefix r' ?s"
    by (auto simp: find_Some_iff)
  have "prefix r ?s" by simp
  with p' have "prefix r r' \<or> prefix r' r"
    using prefix_same_cases by blast
  with r r' spaceRunes_prefix_free have "r' = r" by blast
  with f have "trimRunes spaceRunes ?s = trimRunes spaceRunes (concat ws)"
    by (simp add: trimRunes.simps [of spaceRunes "r @ concat ws"])
  with Cons show ?case by simp
qed

lemma TrimSpace_onlySpace: "onlySpace v \<Longrightarrow> TrimSpace v = []"
  by (auto simp: onlySpace_def TrimSpace_def trimRunes_space_concat trimRunes_Nil)

lemma TrimSpace_nonempty: "TrimSpace t \<noteq> [] \<Longrightarrow> t \<noteq> []"
  using TrimSpace_Nil by auto

lemma trimRunes_fix: "find (\<lambda>r. r \<noteq> [] \<and> prefix r (trimRunes rs s)) rs = None"
proof (induction rs s rule: trimRunes.induct)
  case (1 rs s)
  show ?case
  proof (cases "find (\<lambda>r. r \<noteq> [] \<and> prefix r s) rs")
    case None
    then show ?thesis by (simp add: trimRunes.simps [of rs s])
  next
    case (Some r)
    with 1 show ?thesis by (simp add: trimRunes.simps [of rs s])
  qed
qed

lemma trimRunes_suffix: "suffix (trimRunes rs s) s"
proof (induction rs s rule: trimRunes.induct)
  case (1 rs s)
  show ?case
  proof (cases "find (\<lambda>r. r \<noteq> [] \<and> prefix r s) rs")
    case None
    then show ?thesis by (simp add: trimRunes.simps [of rs s])
  next
    case (Some r)
    with 1 have "suffix (trimRunes rs (drop (length r) s)) (drop (length r) s)" by simp
    moreover have "suffix (drop (length r) s) s" by (rule suffix_drop)
    ultimately have "suffix (trimRunes rs (drop (length r) s)) s"
      using suffix_order.trans by blast
    with Some show ?thesis by (simp add: trimRunes.simps [of rs s])
  qed
qed

lemma trimRunes_id: "find (\<lambda>r. r \<noteq> [] \<and> prefix r s) rs = None \<Longrightarrow> trimRunes rs s = s"
  by (simp add: trimRunes.simps [of rs s])

lemma find_prefix_None:
  assumes "find (\<lambda>r. r \<noteq> [] \<and> prefix r s) rs = None" and "prefix p s"
  shows "find (\<lambda>r. r \<noteq> [] \<and> prefix r p) rs = None"
  using assms by (auto simp: find_None_iff dest: prefix_order.trans)

lemma TrimSpace_idem: "TrimSpace (TrimSpace v) = TrimSpace v"
proof -
  let ?L = spaceRunes and ?R = "map rev spaceRunes"
  let ?a = "trimRunes ?L v"
  let ?b' = "trimRunes ?R (rev ?a)"
  have "suffix ?b' (rev ?a)" by (rule trimRunes_suffix)
  then have "prefix (rev ?b') ?a"
    using suffix_to_prefix [of ?b' "rev ?a"] by simp
  then have "find (\<lambda>r. r \<noteq> [] \<and> prefix r (rev ?b')) ?L = None"
    using find_prefix_None [OF trimRunes_fix] by blast
  then have "trimRunes ?L (rev ?b') = rev ?b'"
    by (rule trimRunes_id)
  moreover have "trimRunes ?R ?b' = ?b'"
    using trimRunes_id [OF trimRunes_fix] .
  ultimately show ?thesis
    by (simp add: TrimSpace_def)
qed

lemmas trim_eval = TrimSpace_def trimRunes.simps spaceRunes_def

lemma Getenv_unsetenv:
  "Getenv (unsetenv w k) k' = (if k' = k then [] else Getenv w k')"
  by (simp add: Getenv_def unsetenv_def)

lemma TrimSpace_Getenv_unsetenv:
  "TrimSpace (Getenv w k) = [] \<Longrightarrow> TrimSpace (Getenv (unsetenv w k) k') = TrimSpace (Getenv w k')"
  by (simp add: Getenv_unsetenv TrimSpace_Nil)

section \<open>Facts about the resolvers\<close>

lemma failWith_eq:
  "failWith m s = (Inl (GoError (errCount s) m), s\<lparr>errCount := Suc (errCount s)\<rparr>)"
  by (simp add: failWith_def newError_def)

lemma tokenFromWrangler_ok:
  assumes "cmdOutput w (length (cmdLog s)) ''wrangler'' [''auth'', ''token'', ''--json''] = Inr out"
    and "unmarshalToken w out = Inr tok" and "TrimSpace tok \<noteq> []"
  shows "tokenFromWrangler w s =
           (Inr tok, s\<lparr>cmdLog := cmdLog s @ [(''wrangler'', [''auth'', ''token'', ''--json''])]\<rparr>)"
  using assms by (simp add: tokenFromWrangler_def runCommand_def)

lemma tokenFromWrangler_fail:
  assumes "\<forall>out tok. cmdOutput w (length (cmdLog s)) ''wrangler'' [''auth'', ''token'', ''--json''] = Inr out
              \<and> unmarshalToken w out = Inr tok \<longrightarrow> TrimSpace tok = []"
  shows "\<exists>e s'. tokenFromWrangler w s = (Inl e, s') \<and> cachedAPIToken s' = cachedAPIToken s
            \<and> errCount s \<le> errCount s'"
  using assms
  by (auto simp: tokenFromWrangler_def runCommand_def failWith_eq split: sum.splits)

lemma tokenFromWrangler_frame:
  "tokenFromWrangler w s = (r, s') \<Longrightarrow>
     cachedAPIToken s' = cachedAPIToken s \<and> cachedAccountID s' = cachedAccountID s"
  by (auto simp: tokenFromWrangler_def runCommand_def failWith_eq split: sum.splits if_splits)

lemma tokenFromWrangler_unsetenv: "tokenFromWrangler (unsetenv w k) s = tokenFromWrangler w s"
  by (simp add: tokenFromWrangler_def runCommand_def unsetenv_def cong: sum.case_cong)

lemma resolveAPIToken_cached:
  "cachedAPIToken s \<noteq> [] \<Longrightarrow> resolveAPIToken w s = (Inr (cachedAPIToken s), s)"
  by (simp add: resolveAPIToken_def)

lemma resolveAPIToken_primary:
  assumes "cachedAPIToken s = []" and "TrimSpace (Getenv w ''CF_API_TOKEN'') \<noteq> []"
  shows "resolveAPIToken w s =
           (Inr (TrimSpace (Getenv w ''CF_API_TOKEN'')),
            s\<lparr>cachedAPIToken := TrimSpace (Getenv w ''CF_API_TOKEN'')\<rparr>)"
  using assms by (simp add: resolveAPIToken_def)

lemma resolveAPIToken_alias:
  assumes "cachedAPIToken s = []" and "TrimSpace (Getenv w ''CF_API_TOKEN'') = []"
    and "TrimSpace (Getenv w ''CLOUDFLARE_API_TOKEN'') \<noteq> []"
  shows "resolveAPIToken w s =
           (Inr (TrimSpace (Getenv w ''CLOUDFLARE_API_TOKEN'')),
            s\<lparr>cachedAPIToken := TrimSpace (Getenv w ''CLOUDFLARE_API_TOKEN'')\<rparr>)"
  using assms by (simp add: resolveAPIToken_def)

lemma resolveAPIToken_wrangler:
  assumes "cachedAPIToken s = []" and "TrimSpace (Getenv w ''CF_API_TOKEN'') = []"
    and "TrimSpace (Getenv w ''CLOUDFLARE_API_TOKEN'') = []"
    and "cmdOutput w (length (cmdLog s)) ''wrangler'' [''auth'', ''token'', ''--json''] = Inr out"
    and "unmarshalToken w out = Inr tok" and "TrimSpace tok \<noteq> []"
  shows "resolveAPIToken w s =
           (Inr tok,
            s\<lparr>cmdLog := cmdLog s @ [(''wrangler'', [''auth'', ''token'', ''--json''])],
              cachedAPIToken := tok\<rparr>)"
proof -
  have "tokenFromWrangler w s =
          (Inr tok, s\<lparr>cmdLog := cmdLog s @ [(''wrangler'', [''auth'', ''token'', ''--json''])]\<rparr>)"
    using assms(4-6) by (rule tokenFromWrangler_ok)
  moreover have "tok \<noteq> []"
    using assms(6) by (rule TrimSpace_nonempty)
  ultimately show ?thesis
    using assms(1-3) by (simp add: resolveAPIToken_def)
qed

lemma resolveAPIToken_missing:
  assumes "cachedAPIToken s = []" and "TrimSpace (Getenv w ''CF_API_TOKEN'') = []"
    and "TrimSpace (Getenv w ''CLOUDFLARE_API_TOKEN'') = []"
    and "\<forall>out tok. cmdOutput w (length (cmdLog s)) ''wrangler'' [''auth'', ''token'', ''--json''] = Inr out
              \<and> unmarshalToken w out = Inr tok \<longrightarrow> TrimSpace tok = []"
  shows "\<exists>e s'. resolveAPIToken w s = (Inl e, s') \<and> Error e = missingTokenMessage \<and>
            errCount s \<le> errAddr e \<and> cachedAPIToken s' = []"
proof -
  obtain e1 s1 where t: "tokenFromWrangler w s = (Inl e1, s1)"
    and c1: "cachedAPIToken s1 = cachedAPIToken s" and n1: "errCount s \<le> errCount s1"
    using tokenFromWrangler_fail [OF assms(4)] by blast
  have "resolveAPIToken w s =
          (Inl (GoError (errCount s1) missingTokenMessage), s1\<lparr>errCount := Suc (errCount s1)\<rparr>)"
    using assms(1-3) t by (simp add: resolveAPIToken_def failWith_eq)
  with assms(1) c1 n1 show ?thesis by simp
qed

lemma resolveAPIToken_success:
  assumes "resolveAPIToken w s = (Inr t, s')"
  shows "cachedAPIToken s' = t \<and> t \<noteq> []"
proof (cases "cachedAPIToken s \<noteq> []")
  case True
  with assms show ?thesis by (auto simp: resolveAPIToken_cached)
next
  case False
  obtain r s1 where t: "tokenFromWrangler w s = (r, s1)"
    by (cases "tokenFromWrangler w s")
  with assms False show ?thesis
    by (auto simp: resolveAPIToken_def failWith_eq split: if_splits sum.splits)
qed

lemma resolveAPIToken_frame:
  assumes "resolveAPIToken w s = (r, s')"
  shows "cachedAccountID s' = cachedAccountID s \<and>
         (cachedAPIToken s \<noteq> [] \<longrightarrow> cachedAPIToken s' = cachedAPIToken s)"
proof -
  obtain r1 s1 where t: "tokenFromWrangler w s = (r1, s1)"
    by (cases "tokenFromWrangler w s")
  from tokenFromWrangler_frame [OF t] assms t show ?thesis
    by (auto simp: resolveAPIToken_def failWith_eq split: if_splits sum.splits)
qed

lemma resolveAPIToken_nonblank:
  assumes "cachedAPIToken s = []" and "resolveAPIToken w s = (Inr t, s')"
  shows "TrimSpace t \<noteq> []"
proof -
  obtain r s1 where t: "tokenFromWrangler w s = (r, s1)"
    by (cases "tokenFromWrangler w s")
  have "r = Inr t \<Longrightarrow> TrimSpace t \<noteq> []"
    using t by (auto simp: tokenFromWrangler_def runCommand_def failWith_eq
                split: sum.splits if_splits)
  with assms t show ?thesis
    by (auto simp: resolveAPIToken_def failWith_eq TrimSpace_idem split: if_splits sum.splits)
qed

lemma resolveAPIToken_unsetenv:
  "TrimSpace (Getenv w k) = [] \<Longrightarrow> resolveAPIToken (unsetenv w k) s = resolveAPIToken w s"
  by (simp add: resolveAPIToken_def TrimSpace_Getenv_unsetenv tokenFromWrangler_unsetenv)

lemma formatAPIErrors_frame:
  "formatAPIErrors errs st s = (e, s') \<Longrightarrow>
     cachedAPIToken s' = cachedAPIToken s \<and> cachedAccountID s' = cachedAccountID s"
  by (auto simp: formatAPIErrors_def newError_def split: if_splits)

lemma inferAccountID_frame:
  "inferAccountIDFromMemberships w token s = (r, s') \<Longrightarrow> cachedAPIToken s' = cachedAPIToken s"
  by (auto simp: inferAccountIDFromMemberships_def httpSend_def failWith_eq
        dest: formatAPIErrors_frame split: sum.splits if_splits prod.splits)

lemma inferAccountID_unsetenv:
  "inferAccountIDFromMemberships (unsetenv w k) token s = inferAccountIDFromMemberships w token s"
  by (simp add: inferAccountIDFromMemberships_def httpSend_def unsetenv_def cong: sum.case_cong)

lemma inferAccountID_decoded:
  assumes "httpDo w (length (httpLog s))
             \<lparr>reqMethod = MethodGet, reqURL = apiBase @ ''/memberships'',
              reqAuthorization = ''Bearer '' @ token, reqContentType = ''application/json'',
              reqBody = NoBody\<rparr> = Inr resp"
    and "decodeMemberships w (Body resp) = Inr payload"
    and "StatusCode resp < 400" and "mSuccess payload"
  shows "\<exists>s'. cachedAccountID s' = cachedAccountID s \<and>
     (mResult payload = [] \<longrightarrow>
        inferAccountIDFromMemberships w token s =
          failWith ''no Cloudflare account memberships found for token'' s') \<and>
     (\<forall>a. mResult payload = [a] \<longrightarrow>
        inferAccountIDFromMemberships w token s = (Inr (accountID a), s')) \<and>
     (2 \<le> length (mResult payload) \<longrightarrow>
        inferAccountIDFromMemberships w token s =
          failWith (''multiple accounts found; set CF_ACCOUNT_ID. available: '' @
                    Join (map (\<lambda>item. accountName item @ '' ('' @ accountID item @ '')'')
                            (mResult payload)) '', '') s')"
  using assms
  by (intro exI [of _ "s\<lparr>httpLog := httpLog s @
             [\<lparr>reqMethod = MethodGet, reqURL = apiBase @ ''/memberships'',
              reqAuthorization = ''Bearer '' @ token, reqContentType = ''application/json'',
              reqBody = NoBody\<rparr>]\<rparr>"])
     (auto simp: inferAccountIDFromMemberships_def httpSend_def)

lemma choices_contain:
  assumes "a \<in> set accts"
  shows "Contains (pre @ Join (map (\<lambda>item. accountName item @ '' ('' @ accountID item @ '')'') accts) sep)
           (accountName a) \<and>
         Contains (pre @ Join (map (\<lambda>item. accountName item @ '' ('' @ accountID item @ '')'') accts) sep)
           (accountID a)"
proof -
  let ?f = "\<lambda>item. accountName item @ '' ('' @ accountID item @ '')''"
  let ?m = "pre @ Join (map ?f accts) sep"
  have "?f a \<in> set (map ?f accts)"
    using assms by simp
  then have "Contains (Join (map ?f accts) sep) (?f a)"
    by (rule Contains_Join)
  moreover have "Contains ?m (Join (map ?f accts) sep)"
    by (rule Contains_end)
  ultimately have m: "Contains ?m (?f a)"
    using Contains_trans by blast
  have "Contains (?f a) (accountName a)"
    using Contains_mid [of "[]" "accountName a" "'' ('' @ accountID a @ '')''"] by simp
  moreover have "Contains (?f a) (accountID a)"
    using Contains_mid [of "accountName a @ '' (''" "accountID a" "'')''"] by simp
  ultimately show ?thesis
    using m Contains_trans by blast
qed

lemma resolveAccountID_cached:
  "cachedAccountID s \<noteq> [] \<Longrightarrow> resolveAccountID w s = (Inr (cachedAccountID s), s)"
  by (simp add: resolveAccountID_def)

lemma resolveAccountID_primary:
  assumes "cachedAccountID s = []" and "TrimSpace (Getenv w ''CF_ACCOUNT_ID'') \<noteq> []"
  shows "resolveAccountID w s =
           (Inr (TrimSpace (Getenv w ''CF_ACCOUNT_ID'')),
            s\<lparr>cachedAccountID := TrimSpace (Getenv w ''CF_ACCOUNT_ID'')\<rparr>)"
  using assms by (simp add: resolveAccountID_def)

lemma resolveAccountID_alias:
  assumes "cachedAccountID s = []" and "TrimSpace (Getenv w ''CF_ACCOUNT_ID'') = []"
    and "TrimSpace (Getenv w ''CLOUDFLARE_ACCOUNT_ID'') \<noteq> []"
  shows "resolveAccountID w s =
           (Inr (TrimSpace (Getenv w ''CLOUDFLARE_ACCOUNT_ID'')),
            s\<lparr>cachedAccountID := TrimSpace (Getenv w ''CLOUDFLARE_ACCOUNT_ID'')\<rparr>)"
  using assms by (simp add: resolveAccountID_def)

lemma resolveAccountID_keeps_token:
  assumes "resolveAccountID w s = (r, s')" and "cachedAPIToken s \<noteq> []"
  shows "cachedAPIToken s' = cachedAPIToken s"
proof -
  obtain r1 s1 where a: "resolveAPIToken w s = (r1, s1)"
    by (cases "resolveAPIToken w s")
  with assms(2) have s1: "s1 = s" and r1: "r1 = Inr (cachedAPIToken s)"
    by (auto simp: resolveAPIToken_cached)
  obtain r2 s2 where b: "inferAccountIDFromMemberships w (cachedAPIToken s) s = (r2, s2)"
    by (cases "inferAccountIDFromMemberships w (cachedAPIToken s) s")
  from inferAccountID_frame [OF b] assms a b s1 r1 show ?thesis
    by (auto simp: resolveAccountID_def split: if_splits sum.splits)
qed

lemma resolveAccountID_unsetenv:
  "TrimSpace (Getenv w k) = [] \<Longrightarrow> resolveAccountID (unsetenv w k) s = resolveAccountID w s"
  by (simp add: resolveAccountID_def TrimSpace_Getenv_unsetenv resolveAPIToken_unsetenv
        inferAccountID_unsetenv cong: sum.case_cong prod.case_cong)

section \<open>Facts about requests and zones\<close>

lemma requestCF_keeps_token:
  assumes "requestCF w m p b s = (r, s')" and "cachedAPIToken s \<noteq> []"
  shows "cachedAPIToken s' = cachedAPIToken s"
  using assms
  by (auto simp: requestCF_def resolveAPIToken_cached httpSend_def
        dest: formatAPIErrors_frame split: sum.splits if_splits prod.splits)

lemma requestCF_transport:
  assumes "resolveAPIToken w s = (Inr token, s1)"
    and "httpDo w (length (httpLog s1))
           \<lparr>reqMethod = m, reqURL = apiBase @ p, reqAuthorization = ''Bearer '' @ token,
            reqContentType = ''application/json'', reqBody = b\<rparr> = Inl e"
  shows "fst (requestCF w m p b s) = Inl e"
    and "cachedAPIToken (snd (requestCF w m p b s)) = cachedAPIToken s1"
    and "cachedAccountID (snd (requestCF w m p b s)) = cachedAccountID s1"
  using assms by (simp_all add: requestCF_def httpSend_def)

lemma requestCF_rejected:
  assumes "resolveAPIToken w s = (Inr token, s1)"
    and "httpDo w (length (httpLog s1))
           \<lparr>reqMethod = m, reqURL = apiBase @ p, reqAuthorization = ''Bearer '' @ token,
            reqContentType = ''application/json'', reqBody = b\<rparr> = Inr resp"
    and "decodeAPIResponse w (Body resp) = Inr out"
    and "StatusCode resp \<ge> 400 \<or> \<not> Success out"
    and "Errors out \<noteq> []"
  shows "fst (requestCF w m p b s) =
           Inl (GoError (errCount s1)
                  (Join (map (\<lambda>e. Itoa (Code e) @ '': '' @ Message e) (Errors out)) ''; ''))"
    and "cachedAPIToken (snd (requestCF w m p b s)) = cachedAPIToken s1"
    and "cachedAccountID (snd (requestCF w m p b s)) = cachedAccountID s1"
  using assms by (auto simp: requestCF_def httpSend_def formatAPIErrors_def newError_def)

lemma requestCF_accepted:
  assumes "resolveAPIToken w s = (Inr token, s1)"
    and "httpDo w (length (httpLog s1))
           \<lparr>reqMethod = m, reqURL = apiBase @ p, reqAuthorization = ''Bearer '' @ token,
            reqContentType = ''application/json'', reqBody = b\<rparr> = Inr resp"
    and "decodeAPIResponse w (Body resp) = Inr out"
    and "StatusCode resp < 400" and "Success out"
  shows "fst (requestCF w m p b s) = Inr out"
    and "cachedAPIToken (snd (requestCF w m p b s)) = cachedAPIToken s1"
    and "cachedAccountID (snd (requestCF w m p b s)) = cachedAccountID s1"
  using assms by (simp_all add: requestCF_def httpSend_def)

lemma getZoneByName_keeps_token:
  assumes "getZoneByName w n s = (r, s')" and "cachedAPIToken s \<noteq> []"
  shows "cachedAPIToken s' = cachedAPIToken s"
proof -
  obtain r1 s1 where a: "resolveAccountID w s = (r1, s1)"
    by (cases "resolveAccountID w s")
  have k1: "cachedAPIToken s1 = cachedAPIToken s"
    using resolveAccountID_keeps_token [OF a assms(2)] .
  show ?thesis
  proof (cases r1)
    case (Inl e)
    with a assms k1 show ?thesis by (simp add: getZoneByName_def)
  next
    case (Inr acct)
    obtain r2 s2 where b: "requestCF w MethodGet
                  (''/zones?account.id='' @ QueryEscape w acct @ ''&name='' @
                   QueryEscape w n @ ''&per_page=1'') NoBody s1 = (r2, s2)"
      by (cases "requestCF w MethodGet
                  (''/zones?account.id='' @ QueryEscape w acct @ ''&name='' @
                   QueryEscape w n @ ''&per_page=1'') NoBody s1")
    have k2: "cachedAPIToken s2 = cachedAPIToken s1"
      using requestCF_keeps_token [OF b] k1 assms(2) by simp
    from a b Inr assms(1) k1 k2 show ?thesis
      by (auto simp: getZoneByName_def split: sum.splits list.splits)
  qed
qed

lemma getZoneByName_cached:
  assumes "cachedAccountID s \<noteq> []"
  shows "fst (getZoneByName w name s) =
     (case fst (requestCF w MethodGet
                  (''/zones?account.id='' @ QueryEscape w (cachedAccountID s) @ ''&name='' @
                   QueryEscape w name @ ''&per_page=1'') NoBody s) of
        Inl err \<Rightarrow> Inl err
      | Inr resp \<Rightarrow>
          (case unmarshalZones w (Result resp) of
             Inl err \<Rightarrow> Inl err
           | Inr zones \<Rightarrow> (case zones of [] \<Rightarrow> Inr None | z # _ \<Rightarrow> Inr (Some z))))"
  using assms
  by (simp add: getZoneByName_def resolveAccountID_cached split: prod.splits sum.splits list.splits)

lemma printLine_cache [simp]:
  "cachedAPIToken (printLine l s) = cachedAPIToken s"
  "cachedAccountID (printLine l s) = cachedAccountID s"
  by (simp_all add: printLine_def)

lemma addZone_keeps_token:
  assumes "addZone w d s = (r, s')" and "cachedAPIToken s \<noteq> []"
  shows "cachedAPIToken s' = cachedAPIToken s"
proof -
  obtain r1 s1 where a: "resolveAccountID w s = (r1, s1)"
    by (cases "resolveAccountID w s")
  have k1: "cachedAPIToken s1 = cachedAPIToken s"
    using resolveAccountID_keeps_token [OF a assms(2)] .
  show ?thesis
  proof (cases r1)
    case (Inl e)
    with a assms k1 show ?thesis by (simp add: addZone_def)
  next
    case (Inr acct)
    obtain r2 s2 where b: "requestCF w MethodPost ''/zones'' (ZoneCreateBody acct d) s1 = (r2, s2)"
      by (cases "requestCF w MethodPost ''/zones'' (ZoneCreateBody acct d) s1")
    have k2: "cachedAPIToken s2 = cachedAPIToken s"
      using requestCF_keeps_token [OF b] k1 assms(2) by simp
    obtain r3 s3 where c: "getZoneByName w d s2 = (r3, s3)"
      by (cases "getZoneByName w d s2")
    have k3: "cachedAPIToken s3 = cachedAPIToken s"
      using getZoneByName_keeps_token [OF c] k2 assms(2) by simp
    from a b c Inr assms(1) k2 k3 show ?thesis
      by (auto simp: addZone_def split: sum.splits option.splits if_splits)
  qed
qed

lemma addZone_after_failure:
  assumes "resolveAccountID w s = (Inr acct, s1)"
    and "requestCF w MethodPost ''/zones'' (ZoneCreateBody acct domain) s1 = (Inl err, s2)"
  shows "(\<not> Contains (Error err) ''1061'' \<longrightarrow> addZone w domain s = (Inl err, s2)) \<and>
         (Contains (Error err) ''1061'' \<longrightarrow>
            (\<forall>z. fst (getZoneByName w domain s2) = Inr (Some z) \<longrightarrow>
                 fst (addZone w domain s) = Inr z) \<and>
            (fst (getZoneByName w domain s2) = Inr None \<longrightarrow>
                 fst (addZone w domain s) = Inl err) \<and>
            (\<forall>e. fst (getZoneByName w domain s2) = Inl e \<longrightarrow>
                 fst (addZone w domain s) = Inl e))"
proof -
  obtain r s3 where g: "getZoneByName w domain s2 = (r, s3)"
    by (cases "getZoneByName w domain s2")
  show ?thesis
    using assms g by (cases r) (auto simp: addZone_def split: option.splits)
qed

section \<open>Facts about the diagnosis\<close>

lemma explain_frame:
  "explainZoneCreatePermissionError g w err s = (e, s') \<Longrightarrow>
     cachedAPIToken s' = cachedAPIToken s \<and> cachedAccountID s' = cachedAccountID s"
  by (auto simp: explainZoneCreatePermissionError_def newError_def runCommand_def
        split: if_splits AuthMode.splits sum.splits)

lemma explain_env:
  assumes "Contains (Error err) (signature g)" and "detectAuthMode w = EnvironmentToken"
  shows "explainZoneCreatePermissionError g w err s =
           newError (summary g (Error err) @ envModeMarker @ envRemediation @ envSteps g) s"
  using assms by (simp add: explainZoneCreatePermissionError_def)

lemma explain_tool:
  assumes "Contains (Error err) (signature g)" and "detectAuthMode w = ExternalToolFallback"
  shows "explainZoneCreatePermissionError g w err s =
           (case cmdOutput w (length (cmdLog s)) ''wrangler'' [''whoami''] of
              Inr out \<Rightarrow>
                newError (summary g (Error err) @ toolModeMarker @ toolSteps g @ out)
                  (s\<lparr>cmdLog := cmdLog s @ [(''wrangler'', [''whoami''])]\<rparr>)
            | Inl e \<Rightarrow>
                newError (summary g (Error err) @ toolModeMarker @ toolSteps g)
                  (s\<lparr>cmdLog := cmdLog s @ [(''wrangler'', [''whoami''])]\<rparr>))"
  using assms
  by (simp add: explainZoneCreatePermissionError_def runCommand_def split: sum.splits)

section \<open>Facts about the scenarios\<close>

lemma membershipsWorld_token:
  "resolveAPIToken (membershipsWorld accts) initialState =
     (Inr ''test-token'', initialState\<lparr>cachedAPIToken := ''test-token''\<rparr>)"
proof -
  have "TrimSpace (Getenv (membershipsWorld accts) ''CF_API_TOKEN'') = ''test-token''"
    by (simp add: membershipsWorld_def envWorld_def Getenv_def trim_eval)
  then show ?thesis
    using resolveAPIToken_primary [of initialState "membershipsWorld accts"]
    by (simp add: initialState_def)
qed

lemma membershipsWorld_unset:
  "TrimSpace (Getenv (membershipsWorld accts) ''CF_ACCOUNT_ID'') = []"
  "TrimSpace (Getenv (membershipsWorld accts) ''CLOUDFLARE_ACCOUNT_ID'') = []"
  by (simp_all add: membershipsWorld_def envWorld_def Getenv_def TrimSpace_Nil)

lemma membershipsWorld_http:
  "httpDo (membershipsWorld accts)
     (length (httpLog (initialState\<lparr>cachedAPIToken := ''test-token''\<rparr>)))
     \<lparr>reqMethod = MethodGet, reqURL = apiBase @ ''/memberships'',
      reqAuthorization = ''Bearer '' @ ''test-token'', reqContentType = ''application/json'',
      reqBody = NoBody\<rparr> = Inr \<lparr>StatusCode = 200, Body = ''memberships''\<rparr>"
  by (simp add: membershipsWorld_def)

lemma membershipsWorld_decode:
  "decodeMemberships (membershipsWorld accts) (Body \<lparr>StatusCode = 200, Body = ''memberships''\<rparr>) =
     Inr \<lparr>mSuccess = True, mErrors = [], mResult = accts\<rparr>"
  by (simp add: membershipsWorld_def)

lemma rejectingWorld_account:
  "resolveAccountID (rejectingWorld st errs lk) initialState =
     (Inr ''acct-9'', initialState\<lparr>cachedAccountID := ''acct-9''\<rparr>)"
proof -
  have "TrimSpace (Getenv (rejectingWorld st errs lk) ''CF_ACCOUNT_ID'') = ''acct-9''"
    by (simp add: rejectingWorld_def accountWorld_def Getenv_def trim_eval)
  then show ?thesis
    using resolveAccountID_primary [of initialState "rejectingWorld st errs lk"]
    by (simp add: initialState_def)
qed

lemma rejectingWorld_token:
  "resolveAPIToken (rejectingWorld st errs lk) (initialState\<lparr>cachedAccountID := ''acct-9''\<rparr>) =
     (Inr ''test-token'', initialState\<lparr>cachedAccountID := ''acct-9'', cachedAPIToken := ''test-token''\<rparr>)"
proof -
  have "TrimSpace (Getenv (rejectingWorld st errs lk) ''CF_API_TOKEN'') = ''test-token''"
    by (simp add: rejectingWorld_def accountWorld_def Getenv_def trim_eval)
  then show ?thesis
    using resolveAPIToken_primary
      [of "initialState\<lparr>cachedAccountID := ''acct-9''\<rparr>" "rejectingWorld st errs lk"]
    by (simp add: initialState_def)
qed

lemma rejectingWorld_create:
  assumes "400 \<le> st" and "errs \<noteq> []"
  shows "\<exists>s2. requestCF (rejectingWorld st errs lk) MethodPost ''/zones''
                 (ZoneCreateBody ''acct-9'' d) (initialState\<lparr>cachedAccountID := ''acct-9''\<rparr>) =
               (Inl (GoError 0 (Join (map (\<lambda>e. Itoa (Code e) @ '': '' @ Message e) errs) ''; '')), s2) \<and>
              cachedAPIToken s2 = ''test-token'' \<and> cachedAccountID s2 = ''acct-9''"
proof -
  let ?w = "rejectingWorld st errs lk"
  let ?s1 = "initialState\<lparr>cachedAccountID := ''acct-9'', cachedAPIToken := ''test-token''\<rparr>"
  let ?r = "requestCF ?w MethodPost ''/zones'' (ZoneCreateBody ''acct-9'' d)
              (initialState\<lparr>cachedAccountID := ''acct-9''\<rparr>)"
  have h: "httpDo ?w (length (httpLog ?s1))
           \<lparr>reqMethod = MethodPost, reqURL = apiBase @ ''/zones'',
            reqAuthorization = ''Bearer '' @ ''test-token'',
            reqContentType = ''application/json'', reqBody = ZoneCreateBody ''acct-9'' d\<rparr> =
           Inr \<lparr>StatusCode = st, Body = ''rejected''\<rparr>"
    by (simp add: rejectingWorld_def)
  have d: "decodeAPIResponse ?w (Body \<lparr>StatusCode = st, Body = ''rejected''\<rparr>) =
           Inr \<lparr>Success = False, Errors = errs, Result = ''null''\<rparr>"
    by (simp add: rejectingWorld_def)
  have c: "StatusCode \<lparr>StatusCode = st, Body = ''rejected''\<rparr> \<ge> 400 \<or>
           \<not> Success \<lparr>Success = False, Errors = errs, Result = ''null''\<rparr>"
    by simp
  have e: "Errors \<lparr>Success = False, Errors = errs, Result = ''null''\<rparr> \<noteq> []"
    using assms(2) by simp
  have "fst ?r = Inl (GoError (errCount ?s1)
          (Join (map (\<lambda>e. Itoa (Code e) @ '': '' @ Message e)
             (Errors \<lparr>Success = False, Errors = errs, Result = ''null''\<rparr>)) ''; ''))"
    using rejectingWorld_token h d c e by (rule requestCF_rejected(1))
  then have 1: "fst ?r = Inl (GoError 0 (Join (map (\<lambda>e. Itoa (Code e) @ '': '' @ Message e) errs) ''; ''))"
    by (simp add: initialState_def)
  have "cachedAPIToken (snd ?r) = cachedAPIToken ?s1"
    using rejectingWorld_token h d c e by (rule requestCF_rejected(2))
  then have 2: "cachedAPIToken (snd ?r) = ''test-token''" by simp
  have "cachedAccountID (snd ?r) = cachedAccountID ?s1"
    using rejectingWorld_token h d c e by (rule requestCF_rejected(3))
  then have 3: "cachedAccountID (snd ?r) = ''acct-9''" by simp
  from 1 2 3 show ?thesis
    by (intro exI [of _ "snd ?r"]) (simp add: prod_eq_iff)
qed

lemma rejectingWorld_lookup:
  assumes t: "cachedAPIToken s2 = ''test-token''" and a: "cachedAccountID s2 = ''acct-9''"
  shows "fst (getZoneByName (rejectingWorld st errs lk) d s2) =
           (case lk of
              Inl e \<Rightarrow> Inl e
            | Inr zs \<Rightarrow> (case zs of [] \<Rightarrow> Inr None | z # _ \<Rightarrow> Inr (Some z)))"
proof -
  let ?w = "rejectingWorld st errs lk"
  let ?p = "''/zones?account.id='' @ QueryEscape ?w (cachedAccountID s2) @ ''&name='' @
            QueryEscape ?w d @ ''&per_page=1''"
  have tok: "resolveAPIToken ?w s2 = (Inr ''test-token'', s2)"
    using resolveAPIToken_cached [of s2 ?w] t by simp
  have an: "cachedAccountID s2 \<noteq> []" using a by simp
  show ?thesis
  proof (cases lk)
    case (Inl e)
    have "httpDo ?w (length (httpLog s2))
           \<lparr>reqMethod = MethodGet, reqURL = apiBase @ ?p,
            reqAuthorization = ''Bearer '' @ ''test-token'',
            reqContentType = ''application/json'', reqBody = NoBody\<rparr> = Inl e"
      using Inl by (simp add: rejectingWorld_def)
    with tok have "fst (requestCF ?w MethodGet ?p NoBody s2) = Inl e"
      by (rule requestCF_transport(1))
    with Inl show ?thesis
      by (simp add: getZoneByName_cached [OF an])
  next
    case (Inr zs)
    have h: "httpDo ?w (length (httpLog s2))
           \<lparr>reqMethod = MethodGet, reqURL = apiBase @ ?p,
            reqAuthorization = ''Bearer '' @ ''test-token'',
            reqContentType = ''application/json'', reqBody = NoBody\<rparr> =
           Inr \<lparr>StatusCode = 200, Body = ''zones''\<rparr>"
      using Inr by (simp add: rejectingWorld_def)
    have dc: "decodeAPIResponse ?w (Body \<lparr>StatusCode = 200, Body = ''zones''\<rparr>) =
           Inr \<lparr>Success = True, Errors = [], Result = ''zones''\<rparr>"
      by (simp add: rejectingWorld_def)
    have "fst (requestCF ?w MethodGet ?p NoBody s2) =
            Inr \<lparr>Success = True, Errors = [], Result = ''zones''\<rparr>"
      using tok h dc by (rule requestCF_accepted(1)) simp_all
    moreover have "unmarshalZones ?w ''zones'' = Inr zs"
      using Inr by (simp add: rejectingWorld_def)
    ultimately show ?thesis
      using Inr by (simp add: getZoneByName_cached [OF an])
  qed
qed

lemma text_zoneExists:
  "Join (map (\<lambda>e. Itoa (Code e) @ '': '' @ Message e) [zoneExists]) ''; '' =
     ''1061: example.com already exists''"
  by (simp add: zoneExists_def Itoa_def decimal.simps digitChar_def)

lemma text_notAllowed:
  "Join (map (\<lambda>e. Itoa (Code e) @ '': '' @ Message e) [notAllowed]) ''; '' =
     ''9109: Unauthorized to access requested resource''"
  by (simp add: notAllowed_def Itoa_def decimal.simps digitChar_def)

section \<open>The order of the token sources\<close>

text \<open>
  Claim C2. On a run whose token cache is still empty, \<^verbatim>\<open>resolveAPIToken\<close> tries its
  sources in a fixed order. If the trimmed value of \<^verbatim>\<open>CF_API_TOKEN\<close> is not empty, that
  value is returned and cached and no command is run. Otherwise the same holds for
  \<^verbatim>\<open>CLOUDFLARE_API_TOKEN\<close>. Otherwise \<^verbatim>\<open>wrangler auth token --json\<close> is run once, and if
  its output decodes to a token that is not blank, that token is returned and cached.
  In every other case (the command fails, its output does not decode, or the token is
  blank) the result is one new error with the missing-token message, whatever the
  failure of the source was, and nothing is cached.
\<close>

theorem resolveAPIToken_order:
  "cachedAPIToken s = [] \<Longrightarrow>
   (TrimSpace (Getenv w ''CF_API_TOKEN'') \<noteq> [] \<longrightarrow>
      resolveAPIToken w s =
        (Inr (TrimSpace (Getenv w ''CF_API_TOKEN'')),
         s\<lparr>cachedAPIToken := TrimSpace (Getenv w ''CF_API_TOKEN'')\<rparr>)) \<and>
   (TrimSpace (Getenv w ''CF_API_TOKEN'') = [] \<and>
    TrimSpace (Getenv w ''CLOUDFLARE_API_TOKEN'') \<noteq> [] \<longrightarrow>
      resolveAPIToken w s =
        (Inr (TrimSpace (Getenv w ''CLOUDFLARE_API_TOKEN'')),
         s\<lparr>cachedAPIToken := TrimSpace (Getenv w ''CLOUDFLARE_API_TOKEN'')\<rparr>)) \<and>
   (TrimSpace (Getenv w ''CF_API_TOKEN'') = [] \<and>
    TrimSpace (Getenv w ''CLOUDFLARE_API_TOKEN'') = [] \<and>
    cmdOutput w (length (cmdLog s)) ''wrangler'' [''auth'', ''token'', ''--json''] = Inr out \<and>
    unmarshalToken w out = Inr tok \<and> TrimSpace tok \<noteq> [] \<longrightarrow>
      resolveAPIToken w s =
        (Inr tok,
         s\<lparr>cmdLog := cmdLog s @ [(''wrangler'', [''auth'', ''token'', ''--json''])],
           cachedAPIToken := tok\<rparr>)) \<and>
   (TrimSpace (Getenv w ''CF_API_TOKEN'') = [] \<and>
    TrimSpace (Getenv w ''CLOUDFLARE_API_TOKEN'') = [] \<and>
    (\<forall>out' tok'.
        cmdOutput w (length (cmdLog s)) ''wrangler'' [''auth'', ''token'', ''--json''] = Inr out' \<and>
        unmarshalToken w out' = Inr tok' \<longrightarrow> TrimSpace tok' = []) \<longrightarrow>
      (\<exists>e s'. resolveAPIToken w s = (Inl e, s') \<and> Error e = missingTokenMessage \<and>
          errCount s \<le> errAddr e \<and> cachedAPIToken s' = []))"
proof (intro conjI impI)
  assume c: "cachedAPIToken s = []"
  {
    assume "TrimSpace (Getenv w ''CF_API_TOKEN'') \<noteq> []"
    with c show "resolveAPIToken w s =
        (Inr (TrimSpace (Getenv w ''CF_API_TOKEN'')),
         s\<lparr>cachedAPIToken := TrimSpace (Getenv w ''CF_API_TOKEN'')\<rparr>)"
      by (rule resolveAPIToken_primary)
  next
    assume "TrimSpace (Getenv w ''CF_API_TOKEN'') = [] \<and>
      TrimSpace (Getenv w ''CLOUDFLARE_API_TOKEN'') \<noteq> []"
    with c show "resolveAPIToken w s =
        (Inr (TrimSpace (Getenv w ''CLOUDFLARE_API_TOKEN'')),
         s\<lparr>cachedAPIToken := TrimSpace (Getenv w ''CLOUDFLARE_API_TOKEN'')\<rparr>)"
      by (simp add: resolveAPIToken_alias)
  next
    assume "TrimSpace (Getenv w ''CF_API_TOKEN'') = [] \<and>
      TrimSpace (Getenv w ''CLOUDFLARE_API_TOKEN'') = [] \<and>
      cmdOutput w (length (cmdLog s)) ''wrangler'' [''auth'', ''token'', ''--json''] = Inr out \<and>
      unmarshalToken w out = Inr tok \<and> TrimSpace tok \<noteq> []"
    with c show "resolveAPIToken w s =
        (Inr tok,
         s\<lparr>cmdLog := cmdLog s @ [(''wrangler'', [''auth'', ''token'', ''--json''])],
           cachedAPIToken := tok\<rparr>)"
      by (simp add: resolveAPIToken_wrangler)
  next
    assume "TrimSpace (Getenv w ''CF_API_TOKEN'') = [] \<and>
      TrimSpace (Getenv w ''CLOUDFLARE_API_TOKEN'') = [] \<and>
      (\<forall>out' tok'.
        cmdOutput w (length (cmdLog s)) ''wrangler'' [''auth'', ''token'', ''--json''] = Inr out' \<and>
        unmarshalToken w out' = Inr tok' \<longrightarrow> TrimSpace tok' = [])"
    with c show "\<exists>e s'. resolveAPIToken w s = (Inl e, s') \<and> Error e = missingTokenMessage \<and>
          errCount s \<le> errAddr e \<and> cachedAPIToken s' = []"
      using resolveAPIToken_missing [of s w] by blast
  }
qed

theorem resolveAPIToken_order_witness:
  "cachedAPIToken initialState = [] \<and>
   TrimSpace (Getenv envWorld ''CF_API_TOKEN'') = ''test-token'' \<and>
   resolveAPIToken envWorld initialState =
     (Inr ''test-token'', initialState\<lparr>cachedAPIToken := ''test-token''\<rparr>) \<and>
   TrimSpace (Getenv aliasWorld ''CF_API_TOKEN'') = [] \<and>
   TrimSpace (Getenv aliasWorld ''CLOUDFLARE_API_TOKEN'') = ''alias-token'' \<and>
   resolveAPIToken aliasWorld initialState =
     (Inr ''alias-token'', initialState\<lparr>cachedAPIToken := ''alias-token''\<rparr>) \<and>
   resolveAPIToken wranglerWorld initialState =
     (Inr ''tok-123'',
      initialState\<lparr>cmdLog := [(''wrangler'', [''auth'', ''token'', ''--json''])],
                    cachedAPIToken := ''tok-123''\<rparr>) \<and>
   (\<exists>e s'. resolveAPIToken offlineWorld initialState = (Inl e, s') \<and>
       Error e = missingTokenMessage \<and> cachedAPIToken s' = [])"
proof -
  have c: "cachedAPIToken initialState = []"
    by (simp add: initialState_def)
  have l0: "cmdLog initialState = []"
    by (simp add: initialState_def)
  have e1: "TrimSpace (Getenv envWorld ''CF_API_TOKEN'') = ''test-token''"
    by (simp add: envWorld_def Getenv_def trim_eval)
  have a1: "TrimSpace (Getenv aliasWorld ''CF_API_TOKEN'') = []"
    by (simp add: aliasWorld_def Getenv_def trim_eval)
  have a2: "TrimSpace (Getenv aliasWorld ''CLOUDFLARE_API_TOKEN'') = ''alias-token''"
    by (simp add: aliasWorld_def Getenv_def trim_eval)
  have w1: "TrimSpace (Getenv wranglerWorld ''CF_API_TOKEN'') = []"
    and w2: "TrimSpace (Getenv wranglerWorld ''CLOUDFLARE_API_TOKEN'') = []"
    by (simp_all add: wranglerWorld_def offlineWorld_def Getenv_def TrimSpace_Nil)
  have w3: \<open>cmdOutput wranglerWorld (length (cmdLog initialState)) ''wrangler''
              [''auth'', ''token'', ''--json''] = Inr ''{"token":"tok-123"}''\<close>
    by (simp add: wranglerWorld_def)
  have w4: \<open>unmarshalToken wranglerWorld ''{"token":"tok-123"}'' = Inr ''tok-123''\<close>
    by (simp add: wranglerWorld_def offlineWorld_def tokenField_def)
  have w5: "TrimSpace ''tok-123'' \<noteq> []"
    by (simp add: trim_eval)
  have o1: "TrimSpace (Getenv offlineWorld ''CF_API_TOKEN'') = []"
    and o2: "TrimSpace (Getenv offlineWorld ''CLOUDFLARE_API_TOKEN'') = []"
    by (simp_all add: offlineWorld_def Getenv_def TrimSpace_Nil)
  have o3: "\<forall>out' tok'. cmdOutput offlineWorld (length (cmdLog initialState)) ''wrangler''
               [''auth'', ''token'', ''--json''] = Inr out' \<and>
               unmarshalToken offlineWorld out' = Inr tok' \<longrightarrow> TrimSpace tok' = []"
    by (simp add: offlineWorld_def)
  note T = resolveAPIToken_order [OF c]
  have r1: "resolveAPIToken envWorld initialState =
     (Inr ''test-token'', initialState\<lparr>cachedAPIToken := ''test-token''\<rparr>)"
    using T [of envWorld] e1 by simp
  have r2: "resolveAPIToken aliasWorld initialState =
     (Inr ''alias-token'', initialState\<lparr>cachedAPIToken := ''alias-token''\<rparr>)"
    using T [of aliasWorld] a1 a2 by simp
  have r3: "resolveAPIToken wranglerWorld initialState =
     (Inr ''tok-123'',
      initialState\<lparr>cmdLog := [(''wrangler'', [''auth'', ''token'', ''--json''])],
                    cachedAPIToken := ''tok-123''\<rparr>)"
    using T [of wranglerWorld _ "''tok-123''"] w1 w2 w3 w4 w5 l0 by simp
  have r4: "\<exists>e s'. resolveAPIToken offlineWorld initialState = (Inl e, s') \<and>
       Error e = missingTokenMessage \<and> cachedAPIToken s' = []"
    using T [of offlineWorld] o1 o2 o3 by blast
  from c e1 r1 a1 a2 r2 r3 r4 show ?thesis by blast
qed

section \<open>The token cache\<close>

text \<open>
  Claim C4. Once \<^verbatim>\<open>resolveAPIToken\<close> has returned a token, every later call of the same
  run returns that token and leaves the state as it is (no command is run, nothing is
  allocated), whatever the environment, the commands and the remote API have become by
  then. This also holds after any of the other operations has run in between, since none
  of them overwrites a token cache that is not empty.
\<close>

theorem resolveAPIToken_memoized:
  "resolveAPIToken w s = (Inr t, s') \<Longrightarrow>
     resolveAPIToken w' s' = (Inr t, s') \<and>
     resolveAPIToken w' (snd (resolveAccountID w1 s')) = (Inr t, snd (resolveAccountID w1 s')) \<and>
     resolveAPIToken w' (snd (getZoneByName w1 d s')) = (Inr t, snd (getZoneByName w1 d s')) \<and>
     resolveAPIToken w' (snd (addZone w1 d s')) = (Inr t, snd (addZone w1 d s')) \<and>
     resolveAPIToken w' (snd (explainZoneCreatePermissionError g w1 err s')) =
       (Inr t, snd (explainZoneCreatePermissionError g w1 err s'))"
proof -
  assume "resolveAPIToken w s = (Inr t, s')"
  then have c: "cachedAPIToken s' = t" and n: "t \<noteq> []"
    using resolveAPIToken_success by blast+
  have keep: "resolveAPIToken w' u = (Inr t, u)" if "cachedAPIToken u = t" for u
    using that n resolveAPIToken_cached [of u w'] by simp
  have "cachedAPIToken (snd (resolveAccountID w1 s')) = t"
    using resolveAccountID_keeps_token [of w1 s'] c n by (cases "resolveAccountID w1 s'") simp
  moreover have "cachedAPIToken (snd (getZoneByName w1 d s')) = t"
    using getZoneByName_keeps_token [of w1 d s'] c n by (cases "getZoneByName w1 d s'") simp
  moreover have "cachedAPIToken (snd (addZone w1 d s')) = t"
    using addZone_keeps_token [of w1 d s'] c n by (cases "addZone w1 d s'") simp
  moreover have "cachedAPIToken (snd (explainZoneCreatePermissionError g w1 err s')) = t"
    using explain_frame [of g w1 err s'] c
    by (cases "explainZoneCreatePermissionError g w1 err s'") simp
  ultimately show ?thesis using keep c by blast
qed

text \<open>
  The first call reads \<^verbatim>\<open>CF_API_TOKEN\<close>; before the second call the variable is set to
  another token, and the second call still returns the first one.
\<close>

theorem resolveAPIToken_memoized_witness:
  "resolveAPIToken envWorld initialState =
     (Inr ''test-token'', initialState\<lparr>cachedAPIToken := ''test-token''\<rparr>) \<and>
   TrimSpace (Getenv (envWorld\<lparr>environ := [''CF_API_TOKEN'' \<mapsto> ''other-token'']\<rparr>)
      ''CF_API_TOKEN'') = ''other-token'' \<and>
   resolveAPIToken (envWorld\<lparr>environ := [''CF_API_TOKEN'' \<mapsto> ''other-token'']\<rparr>)
      (initialState\<lparr>cachedAPIToken := ''test-token''\<rparr>) =
     (Inr ''test-token'', initialState\<lparr>cachedAPIToken := ''test-token''\<rparr>)"
proof -
  have e1: "TrimSpace (Getenv envWorld ''CF_API_TOKEN'') = ''test-token''"
    by (simp add: envWorld_def Getenv_def trim_eval)
  have r1: "resolveAPIToken envWorld initialState =
     (Inr ''test-token'', initialState\<lparr>cachedAPIToken := ''test-token''\<rparr>)"
    using resolveAPIToken_primary [of initialState envWorld] e1
    by (simp add: initialState_def)
  have e2: "TrimSpace (Getenv (envWorld\<lparr>environ := [''CF_API_TOKEN'' \<mapsto> ''other-token'']\<rparr>)
      ''CF_API_TOKEN'') = ''other-token''"
    by (simp add: Getenv_def trim_eval)
  from resolveAPIToken_memoized [OF r1] r1 e2 show ?thesis by blast
qed

section \<open>The token of Wrangler\<close>

text \<open>
  Claim C7. With an empty token cache and no token variable set (absent, empty or
  blank), if \<^verbatim>\<open>wrangler auth token --json\<close> prints the object \<^verbatim>\<open>{"token":"tok-123"}\<close>, which
  \<^verbatim>\<open>json.Unmarshal\<close> decodes to the token \<^verbatim>\<open>tok-123\<close>, then \<^verbatim>\<open>resolveAPIToken\<close> returns
  \<^verbatim>\<open>tok-123\<close> and no error, and caches it.
\<close>

theorem resolveAPIToken_wrangler_json:
  assumes "cachedAPIToken s = []"
    and "TrimSpace (Getenv w ''CF_API_TOKEN'') = []"
    and "TrimSpace (Getenv w ''CLOUDFLARE_API_TOKEN'') = []"
    and \<open>cmdOutput w (length (cmdLog s)) ''wrangler'' [''auth'', ''token'', ''--json''] =
           Inr ''{"token":"tok-123"}''\<close>
    and \<open>unmarshalToken w ''{"token":"tok-123"}'' = Inr ''tok-123''\<close>
  shows "resolveAPIToken w s =
           (Inr ''tok-123'',
            s\<lparr>cmdLog := cmdLog s @ [(''wrangler'', [''auth'', ''token'', ''--json''])],
              cachedAPIToken := ''tok-123''\<rparr>)"
proof -
  have "TrimSpace ''tok-123'' \<noteq> []"
    by (simp add: trim_eval)
  with assms show ?thesis
    by (rule resolveAPIToken_wrangler)
qed

theorem resolveAPIToken_wrangler_json_witness:
  \<open>cachedAPIToken initialState = [] \<and>
   TrimSpace (Getenv wranglerWorld ''CF_API_TOKEN'') = [] \<and>
   TrimSpace (Getenv wranglerWorld ''CLOUDFLARE_API_TOKEN'') = [] \<and>
   cmdOutput wranglerWorld (length (cmdLog initialState)) ''wrangler''
     [''auth'', ''token'', ''--json''] = Inr ''{"token":"tok-123"}'' \<and>
   unmarshalToken wranglerWorld ''{"token":"tok-123"}'' = Inr ''tok-123'' \<and>
   resolveAPIToken wranglerWorld initialState =
     (Inr ''tok-123'',
      initialState\<lparr>cmdLog := [(''wrangler'', [''auth'', ''token'', ''--json''])],
                    cachedAPIToken := ''tok-123''\<rparr>)\<close>
proof -
  have c: "cachedAPIToken initialState = []"
    by (simp add: initialState_def)
  have w1: "TrimSpace (Getenv wranglerWorld ''CF_API_TOKEN'') = []"
    and w2: "TrimSpace (Getenv wranglerWorld ''CLOUDFLARE_API_TOKEN'') = []"
    by (simp_all add: wranglerWorld_def offlineWorld_def Getenv_def TrimSpace_Nil)
  have w3: \<open>cmdOutput wranglerWorld (length (cmdLog initialState)) ''wrangler''
              [''auth'', ''token'', ''--json''] = Inr ''{"token":"tok-123"}''\<close>
    by (simp add: wranglerWorld_def)
  have w4: \<open>unmarshalToken wranglerWorld ''{"token":"tok-123"}'' = Inr ''tok-123''\<close>
    by (simp add: wranglerWorld_def offlineWorld_def tokenField_def)
  have "resolveAPIToken wranglerWorld initialState =
     (Inr ''tok-123'',
      initialState\<lparr>cmdLog := [(''wrangler'', [''auth'', ''token'', ''--json''])],
                    cachedAPIToken := ''tok-123''\<rparr>)"
    using resolveAPIToken_wrangler_json [OF c w1 w2 w3 w4]
    by (simp add: initialState_def)
  with c w1 w2 w3 w4 show ?thesis by blast
qed

section \<open>The account of the memberships\<close>

text \<open>
  Claim C3. With an empty account cache and neither account variable set (absent, empty
  or blank), once the token is resolved and the memberships request is answered with a
  decodable, successful payload, \<^verbatim>\<open>resolveAccountID\<close> returns and caches the id of the
  account when the payload lists exactly one; fails with the error
  \<^verbatim>\<open>no Cloudflare account memberships found for token\<close> when it lists none; and fails
  with an error whose message contains the name and the id of every listed account when
  it lists two or more. A failure caches nothing.
\<close>

theorem resolveAccountID_memberships:
  assumes "cachedAccountID s = []"
    and "TrimSpace (Getenv w ''CF_ACCOUNT_ID'') = []"
    and "TrimSpace (Getenv w ''CLOUDFLARE_ACCOUNT_ID'') = []"
    and "resolveAPIToken w s = (Inr token, s1)"
    and "httpDo w (length (httpLog s1))
             \<lparr>reqMethod = MethodGet, reqURL = apiBase @ ''/memberships'',
              reqAuthorization = ''Bearer '' @ token, reqContentType = ''application/json'',
              reqBody = NoBody\<rparr> = Inr resp"
    and "decodeMemberships w (Body resp) = Inr payload"
    and "StatusCode resp < 400" and "mSuccess payload"
  shows "(\<forall>a. mResult payload = [a] \<longrightarrow>
            fst (resolveAccountID w s) = Inr (accountID a) \<and>
            cachedAccountID (snd (resolveAccountID w s)) = accountID a) \<and>
         (mResult payload = [] \<longrightarrow>
            (\<exists>e. fst (resolveAccountID w s) = Inl e \<and>
                 Error e = ''no Cloudflare account memberships found for token'') \<and>
            cachedAccountID (snd (resolveAccountID w s)) = []) \<and>
         (2 \<le> length (mResult payload) \<longrightarrow>
            (\<exists>e. fst (resolveAccountID w s) = Inl e \<and>
                 (\<forall>a\<in>set (mResult payload).
                    Contains (Error e) (accountName a) \<and> Contains (Error e) (accountID a))) \<and>
            cachedAccountID (snd (resolveAccountID w s)) = [])"
proof -
  have c1: "cachedAccountID s1 = []"
    using resolveAPIToken_frame [OF assms(4)] assms(1) by simp
  obtain s2 where c2: "cachedAccountID s2 = cachedAccountID s1"
    and none: "mResult payload = [] \<longrightarrow>
        inferAccountIDFromMemberships w token s1 =
          failWith ''no Cloudflare account memberships found for token'' s2"
    and one: "\<forall>a. mResult payload = [a] \<longrightarrow>
        inferAccountIDFromMemberships w token s1 = (Inr (accountID a), s2)"
    and many: "2 \<le> length (mResult payload) \<longrightarrow>
        inferAccountIDFromMemberships w token s1 =
          failWith (''multiple accounts found; set CF_ACCOUNT_ID. available: '' @
                    Join (map (\<lambda>item. accountName item @ '' ('' @ accountID item @ '')'')
                            (mResult payload)) '', '') s2"
    using inferAccountID_decoded [OF assms(5-8)] by blast
  have unfold: "resolveAccountID w s =
      (case inferAccountIDFromMemberships w token s1 of
         (Inl err, s2) \<Rightarrow> (Inl err, s2)
       | (Inr acct, s2) \<Rightarrow> (Inr acct, s2\<lparr>cachedAccountID := acct\<rparr>))"
    using assms(1-4) by (simp add: resolveAccountID_def)
  show ?thesis
  proof (intro conjI allI impI ballI)
    fix a assume "mResult payload = [a]"
    with one unfold have "resolveAccountID w s = (Inr (accountID a), s2\<lparr>cachedAccountID := accountID a\<rparr>)"
      by simp
    then show "fst (resolveAccountID w s) = Inr (accountID a)"
      and "cachedAccountID (snd (resolveAccountID w s)) = accountID a"
      by simp_all
  next
    assume "mResult payload = []"
    with none unfold have r: "resolveAccountID w s =
        (Inl (GoError (errCount s2) ''no Cloudflare account memberships found for token''),
         s2\<lparr>errCount := Suc (errCount s2)\<rparr>)"
      by (simp add: failWith_eq)
    then show "\<exists>e. fst (resolveAccountID w s) = Inl e \<and>
                 Error e = ''no Cloudflare account memberships found for token''"
      by simp
    from r c1 c2 show "cachedAccountID (snd (resolveAccountID w s)) = []"
      by simp
  next
    assume "2 \<le> length (mResult payload)"
    with many unfold have r: "resolveAccountID w s =
        (Inl (GoError (errCount s2)
               (''multiple accounts found; set CF_ACCOUNT_ID. available: '' @
                Join (map (\<lambda>item. accountName item @ '' ('' @ accountID item @ '')'')
                        (mResult payload)) '', '')),
         s2\<lparr>errCount := Suc (errCount s2)\<rparr>)"
      by (simp add: failWith_eq)
    let ?m = "''multiple accounts found; set CF_ACCOUNT_ID. available: '' @
                Join (map (\<lambda>item. accountName item @ '' ('' @ accountID item @ '')'')
                        (mResult payload)) '', ''"
    from r have "fst (resolveAccountID w s) = Inl (GoError (errCount s2) ?m)"
      by (simp only: fst_conv)
    moreover have "\<forall>a\<in>set (mResult payload).
        Contains (Error (GoError (errCount s2) ?m)) (accountName a) \<and>
        Contains (Error (GoError (errCount s2) ?m)) (accountID a)"
      unfolding goerror.sel using choices_contain by blast
    ultimately show "\<exists>e. fst (resolveAccountID w s) = Inl e \<and>
                 (\<forall>a\<in>set (mResult payload).
                    Contains (Error e) (accountName a) \<and> Contains (Error e) (accountID a))"
      by blast
    from r c1 c2 show "cachedAccountID (snd (resolveAccountID w s)) = []"
      by simp
  qed
qed

theorem resolveAccountID_memberships_witness:
  "cachedAccountID initialState = [] \<and>
   fst (resolveAccountID (membershipsWorld [acme]) initialState) = Inr ''a1b2'' \<and>
   (\<exists>e. fst (resolveAccountID (membershipsWorld []) initialState) = Inl e \<and>
        Error e = ''no Cloudflare account memberships found for token'') \<and>
   (\<exists>e. fst (resolveAccountID (membershipsWorld [acme, globex]) initialState) = Inl e \<and>
        Contains (Error e) ''Acme'' \<and> Contains (Error e) ''a1b2'' \<and>
        Contains (Error e) ''Globex Corp'' \<and> Contains (Error e) ''c3d4'')"
proof -
  have c: "cachedAccountID initialState = []"
    by (simp add: initialState_def)
  have st: "StatusCode \<lparr>StatusCode = 200, Body = ''memberships''\<rparr> < 400"
    by simp
  have T: "(\<forall>a. accts = [a] \<longrightarrow>
            fst (resolveAccountID (membershipsWorld accts) initialState) = Inr (accountID a)) \<and>
         (accts = [] \<longrightarrow>
            (\<exists>e. fst (resolveAccountID (membershipsWorld accts) initialState) = Inl e \<and>
                 Error e = ''no Cloudflare account memberships found for token'')) \<and>
         (2 \<le> length accts \<longrightarrow>
            (\<exists>e. fst (resolveAccountID (membershipsWorld accts) initialState) = Inl e \<and>
                 (\<forall>a\<in>set accts.
                    Contains (Error e) (accountName a) \<and> Contains (Error e) (accountID a))))"
    for accts
    using resolveAccountID_memberships [OF c membershipsWorld_unset membershipsWorld_token
        membershipsWorld_http membershipsWorld_decode st, of accts]
    by simp
  have "fst (resolveAccountID (membershipsWorld [acme]) initialState) = Inr ''a1b2''"
    using T [of "[acme]"] by (simp add: acme_def)
  moreover have "\<exists>e. fst (resolveAccountID (membershipsWorld []) initialState) = Inl e \<and>
        Error e = ''no Cloudflare account memberships found for token''"
    using T [of "[]"] by simp
  moreover have "\<exists>e. fst (resolveAccountID (membershipsWorld [acme, globex]) initialState) = Inl e \<and>
        Contains (Error e) ''Acme'' \<and> Contains (Error e) ''a1b2'' \<and>
        Contains (Error e) ''Globex Corp'' \<and> Contains (Error e) ''c3d4''"
    using T [of "[acme, globex]"] by (simp add: acme_def globex_def)
  ultimately show ?thesis using c by blast
qed

section \<open>Blank variables\<close>

text \<open>
  Claim C10. A variable whose value is empty or consists only of white space is treated
  as unset: \<^verbatim>\<open>resolveAPIToken\<close> and \<^verbatim>\<open>resolveAccountID\<close> return the same result and
  the same state as in the environment from which the variable has been removed. So
  resolution falls through to the next source: with a blank primary variable, an empty
  cache and an alias that is not blank, the trimmed alias is the result. And the token
  resolved from an empty cache is never a value of only white space.
\<close>

theorem blank_variable_is_unset:
  "onlySpace (Getenv w k) \<Longrightarrow>
     resolveAPIToken (unsetenv w k) s = resolveAPIToken w s \<and>
     resolveAccountID (unsetenv w k) s = resolveAccountID w s \<and>
     (k = ''CF_API_TOKEN'' \<and> cachedAPIToken s = [] \<and>
      TrimSpace (Getenv w ''CLOUDFLARE_API_TOKEN'') \<noteq> [] \<longrightarrow>
        fst (resolveAPIToken w s) = Inr (TrimSpace (Getenv w ''CLOUDFLARE_API_TOKEN''))) \<and>
     (k = ''CF_ACCOUNT_ID'' \<and> cachedAccountID s = [] \<and>
      TrimSpace (Getenv w ''CLOUDFLARE_ACCOUNT_ID'') \<noteq> [] \<longrightarrow>
        fst (resolveAccountID w s) = Inr (TrimSpace (Getenv w ''CLOUDFLARE_ACCOUNT_ID''))) \<and>
     (\<forall>t. cachedAPIToken s = [] \<and> fst (resolveAPIToken w s) = Inr t \<longrightarrow> \<not> onlySpace t)"
proof -
  assume "onlySpace (Getenv w k)"
  then have b: "TrimSpace (Getenv w k) = []"
    by (rule TrimSpace_onlySpace)
  have "resolveAPIToken (unsetenv w k) s = resolveAPIToken w s"
    using b by (rule resolveAPIToken_unsetenv)
  moreover have "resolveAccountID (unsetenv w k) s = resolveAccountID w s"
    using b by (rule resolveAccountID_unsetenv)
  moreover have "fst (resolveAPIToken w s) = Inr (TrimSpace (Getenv w ''CLOUDFLARE_API_TOKEN''))"
    if "k = ''CF_API_TOKEN''" and "cachedAPIToken s = []"
      and "TrimSpace (Getenv w ''CLOUDFLARE_API_TOKEN'') \<noteq> []"
    using that b resolveAPIToken_alias [of s w] by simp
  moreover have "fst (resolveAccountID w s) = Inr (TrimSpace (Getenv w ''CLOUDFLARE_ACCOUNT_ID''))"
    if "k = ''CF_ACCOUNT_ID''" and "cachedAccountID s = []"
      and "TrimSpace (Getenv w ''CLOUDFLARE_ACCOUNT_ID'') \<noteq> []"
    using that b resolveAccountID_alias [of s w] by simp
  moreover have "\<not> onlySpace t"
    if c: "cachedAPIToken s = []" and r: "fst (resolveAPIToken w s) = Inr t" for t
  proof -
    obtain s' where "resolveAPIToken w s = (Inr t, s')"
      using r by (cases "resolveAPIToken w s") simp
    with c have "TrimSpace t \<noteq> []"
      by (rule resolveAPIToken_nonblank)
    then show ?thesis
      using TrimSpace_onlySpace by blast
  qed
  ultimately show ?thesis by blast
qed

theorem blank_variable_is_unset_witness:
  "Getenv aliasWorld ''CF_API_TOKEN'' = ''  '' \<and>
   onlySpace (Getenv aliasWorld ''CF_API_TOKEN'') \<and>
   resolveAPIToken (unsetenv aliasWorld ''CF_API_TOKEN'') initialState =
     resolveAPIToken aliasWorld initialState \<and>
   fst (resolveAPIToken aliasWorld initialState) = Inr ''alias-token'' \<and>
   Getenv blankAccountWorld ''CF_ACCOUNT_ID'' = [CHR 0x09, CHR 0xC2, CHR 0xA0] \<and>
   onlySpace (Getenv blankAccountWorld ''CF_ACCOUNT_ID'') \<and>
   resolveAccountID (unsetenv blankAccountWorld ''CF_ACCOUNT_ID'') initialState =
     resolveAccountID blankAccountWorld initialState \<and>
   fst (resolveAccountID blankAccountWorld initialState) = Inr ''acct-9''"
proof -
  have g1: "Getenv aliasWorld ''CF_API_TOKEN'' = ''  ''"
    by (simp add: aliasWorld_def Getenv_def)
  have "set ['' '', '' ''] \<subseteq> set spaceRunes \<and> ''  '' = concat ['' '', '' '']"
    by (simp add: spaceRunes_def)
  then have b1: "onlySpace (Getenv aliasWorld ''CF_API_TOKEN'')"
    unfolding onlySpace_def g1 by blast
  have a2: "TrimSpace (Getenv aliasWorld ''CLOUDFLARE_API_TOKEN'') = ''alias-token''"
    by (simp add: aliasWorld_def Getenv_def trim_eval)
  have g2: "Getenv blankAccountWorld ''CF_ACCOUNT_ID'' = [CHR 0x09, CHR 0xC2, CHR 0xA0]"
    by (simp add: blankAccountWorld_def Getenv_def)
  have "set [[CHR 0x09], [CHR 0xC2, CHR 0xA0]] \<subseteq> set spaceRunes \<and>
        [CHR 0x09, CHR 0xC2, CHR 0xA0] = concat [[CHR 0x09], [CHR 0xC2, CHR 0xA0]]"
    by (simp add: spaceRunes_def)
  then have b2: "onlySpace (Getenv blankAccountWorld ''CF_ACCOUNT_ID'')"
    unfolding onlySpace_def g2 by blast
  have a3: "TrimSpace (Getenv blankAccountWorld ''CLOUDFLARE_ACCOUNT_ID'') = ''acct-9''"
    by (simp add: blankAccountWorld_def Getenv_def trim_eval)
  have c: "cachedAPIToken initialState = []" "cachedAccountID initialState = []"
    by (simp_all add: initialState_def)
  from blank_variable_is_unset [OF b1, of initialState] a2 c
  have "resolveAPIToken (unsetenv aliasWorld ''CF_API_TOKEN'') initialState =
          resolveAPIToken aliasWorld initialState"
    and "fst (resolveAPIToken aliasWorld initialState) = Inr ''alias-token''"
    by simp_all
  moreover from blank_variable_is_unset [OF b2, of initialState] a3 c
  have "resolveAccountID (unsetenv blankAccountWorld ''CF_ACCOUNT_ID'') initialState =
          resolveAccountID blankAccountWorld initialState"
    and "fst (resolveAccountID blankAccountWorld initialState) = Inr ''acct-9''"
    by simp_all
  ultimately show ?thesis
    using g1 b1 g2 b2 by blast
qed

section \<open>Adding a zone that exists\<close>

text \<open>
  Claim C9, as stated, fails: when the creation request fails with a text containing
  \<^verbatim>\<open>1061\<close> and the lookup by name fails too, \<^verbatim>\<open>addZone\<close> returns the error of the
  lookup, which is neither a zone nor the original error.
\<close>

theorem addZone_lookup_failure_counterexample:
  "fst (requestCF (rejectingWorld 400 [zoneExists] (Inl refused)) MethodPost ''/zones''
          (ZoneCreateBody ''acct-9'' ''example.com'')
          (snd (resolveAccountID (rejectingWorld 400 [zoneExists] (Inl refused)) initialState))) =
     Inl (GoError 0 ''1061: example.com already exists'') \<and>
   Contains ''1061: example.com already exists'' ''1061'' \<and>
   fst (addZone (rejectingWorld 400 [zoneExists] (Inl refused)) ''example.com'' initialState) =
     Inl (GoError 901 ''dial tcp: connection refused'') \<and>
   GoError 901 ''dial tcp: connection refused'' \<noteq> GoError 0 ''1061: example.com already exists''"
proof -
  let ?w = "rejectingWorld 400 [zoneExists] (Inl refused)"
  obtain s2 where c: "requestCF ?w MethodPost ''/zones'' (ZoneCreateBody ''acct-9'' ''example.com'')
        (initialState\<lparr>cachedAccountID := ''acct-9''\<rparr>) =
        (Inl (GoError 0 ''1061: example.com already exists''), s2)"
    and t: "cachedAPIToken s2 = ''test-token''" and a: "cachedAccountID s2 = ''acct-9''"
    using rejectingWorld_create [of 400 "[zoneExists]" "Inl refused" "''example.com''"] text_zoneExists
    by auto
  have k: "Contains (Error (GoError 0 ''1061: example.com already exists'')) ''1061''"
    by simp
  have l: "fst (getZoneByName ?w ''example.com'' s2) = Inl refused"
    using rejectingWorld_lookup [OF t a, of 400 "[zoneExists]" "Inl refused" "''example.com''"] by simp
  have "fst (addZone ?w ''example.com'' initialState) = Inl refused"
    using addZone_after_failure [OF rejectingWorld_account c] k l by blast
  then show ?thesis
    using c by (simp add: rejectingWorld_account refused_def)
qed

text \<open>
  Claim C9, amended. After the account is resolved and the creation request has failed
  with an error \<open>err\<close>: if the text of \<open>err\<close> does not contain \<^verbatim>\<open>1061\<close>, \<^verbatim>\<open>addZone\<close>
  returns \<open>err\<close> itself. If it does, \<^verbatim>\<open>addZone\<close> looks the zone up by name: a zone
  found is returned with no error; when none is found \<open>err\<close> itself is returned; and when
  the lookup fails, the error of the lookup is returned.
\<close>

theorem addZone_create_failure:
  assumes "resolveAccountID w s = (Inr acct, s1)"
    and "requestCF w MethodPost ''/zones'' (ZoneCreateBody acct domain) s1 = (Inl err, s2)"
  shows "(\<not> Contains (Error err) ''1061'' \<longrightarrow> addZone w domain s = (Inl err, s2)) \<and>
         (Contains (Error err) ''1061'' \<longrightarrow>
            (\<forall>z. fst (getZoneByName w domain s2) = Inr (Some z) \<longrightarrow>
                 fst (addZone w domain s) = Inr z) \<and>
            (fst (getZoneByName w domain s2) = Inr None \<longrightarrow>
                 fst (addZone w domain s) = Inl err) \<and>
            (\<forall>e. fst (getZoneByName w domain s2) = Inl e \<longrightarrow>
                 fst (addZone w domain s) = Inl e))"
  using assms by (rule addZone_after_failure)

theorem addZone_create_failure_witness:
  "fst (addZone (rejectingWorld 400 [zoneExists] (Inr [exampleZone])) ''example.com'' initialState) =
     Inr exampleZone \<and>
   fst (addZone (rejectingWorld 403 [notAllowed] (Inr [exampleZone])) ''example.com'' initialState) =
     Inl (GoError 0 ''9109: Unauthorized to access requested resource'') \<and>
   fst (addZone (rejectingWorld 400 [zoneExists] (Inr [])) ''example.com'' initialState) =
     Inl (GoError 0 ''1061: example.com already exists'') \<and>
   fst (addZone (rejectingWorld 400 [zoneExists] (Inl refused)) ''example.com'' initialState) =
     Inl refused"
proof -
  have exists: "fst (addZone (rejectingWorld 400 [zoneExists] lk) ''example.com'' initialState) =
      (case lk of
         Inl e \<Rightarrow> Inl e
       | Inr zs \<Rightarrow> (case zs of [] \<Rightarrow> Inl (GoError 0 ''1061: example.com already exists'')
                    | z # _ \<Rightarrow> Inr z))" for lk
  proof -
    let ?w = "rejectingWorld 400 [zoneExists] lk"
    obtain s2 where c: "requestCF ?w MethodPost ''/zones'' (ZoneCreateBody ''acct-9'' ''example.com'')
          (initialState\<lparr>cachedAccountID := ''acct-9''\<rparr>) =
          (Inl (GoError 0 ''1061: example.com already exists''), s2)"
      and t: "cachedAPIToken s2 = ''test-token''" and a: "cachedAccountID s2 = ''acct-9''"
      using rejectingWorld_create [of 400 "[zoneExists]" lk "''example.com''"] text_zoneExists by auto
    have k: "Contains (Error (GoError 0 ''1061: example.com already exists'')) ''1061''"
      by simp
    note T = addZone_create_failure [OF rejectingWorld_account c, THEN conjunct2, rule_format, OF k]
    show ?thesis
      using T rejectingWorld_lookup [OF t a, of 400 "[zoneExists]" lk "''example.com''"]
      by (auto split: sum.splits list.splits)
  qed
  have other: "fst (addZone (rejectingWorld 403 [notAllowed] (Inr [exampleZone])) ''example.com''
      initialState) = Inl (GoError 0 ''9109: Unauthorized to access requested resource'')"
  proof -
    let ?w = "rejectingWorld 403 [notAllowed] (Inr [exampleZone])"
    obtain s2 where c: "requestCF ?w MethodPost ''/zones'' (ZoneCreateBody ''acct-9'' ''example.com'')
          (initialState\<lparr>cachedAccountID := ''acct-9''\<rparr>) =
          (Inl (GoError 0 ''9109: Unauthorized to access requested resource''), s2)"
      using rejectingWorld_create [of 403 "[notAllowed]" "Inr [exampleZone]" "''example.com''"]
        text_notAllowed by auto
    have k: "\<not> Contains (Error (GoError 0 ''9109: Unauthorized to access requested resource'')) ''1061''"
      by simp
    from addZone_create_failure [OF rejectingWorld_account c, THEN conjunct1, rule_format, OF k]
    show ?thesis by simp
  qed
  from exists [of "Inr [exampleZone]"] exists [of "Inr []"] exists [of "Inl refused"] other
  show ?thesis by simp
qed

section \<open>The diagnosis of a permission error\<close>

text \<open>
  Claim C1. An error whose message does not contain the signature is returned as the very
  same value, address included, and the state is left as it is. The result is an error
  for every input: the function has no other kind of result.
\<close>

theorem explain_passthrough:
  "\<not> Contains (Error err) (signature g) \<Longrightarrow>
     explainZoneCreatePermissionError g w err s = (err, s)"
  by (simp add: explainZoneCreatePermissionError_def)

theorem explain_passthrough_witness:
  "\<not> Contains (Error otherError) (signature testGuidance) \<and>
   explainZoneCreatePermissionError testGuidance wranglerWorld otherError initialState =
     (otherError, initialState)"
proof -
  have n: "\<not> Contains (Error otherError) (signature testGuidance)"
    by (simp add: otherError_def testGuidance_def)
  from n explain_passthrough [OF n] show ?thesis by blast
qed

text \<open>
  Claim C5. For an error whose message contains the signature, when the trimmed value of
  \<^verbatim>\<open>CF_API_TOKEN\<close> or of \<^verbatim>\<open>CLOUDFLARE_API_TOKEN\<close> is not empty, the message of the
  result contains \<^verbatim>\<open>Auth mode detected: API token from environment\<close> and
  \<^verbatim>\<open>Use a token with zone-creation capability\<close>, and no command is run.
\<close>

theorem explain_environment_mode:
  assumes "Contains (Error err) (signature g)"
    and "TrimSpace (Getenv w ''CF_API_TOKEN'') \<noteq> [] \<or>
         TrimSpace (Getenv w ''CLOUDFLARE_API_TOKEN'') \<noteq> []"
  shows "Contains (Error (fst (explainZoneCreatePermissionError g w err s))) envModeMarker \<and>
         Contains (Error (fst (explainZoneCreatePermissionError g w err s))) envRemediation \<and>
         cmdLog (snd (explainZoneCreatePermissionError g w err s)) = cmdLog s"
proof -
  have "detectAuthMode w = EnvironmentToken"
    using assms(2) by (auto simp: detectAuthMode_def)
  with assms(1) have e: "explainZoneCreatePermissionError g w err s =
      newError (summary g (Error err) @ envModeMarker @ envRemediation @ envSteps g) s"
    by (rule explain_env)
  have "Contains (summary g (Error err) @ envModeMarker @ envRemediation @ envSteps g) envModeMarker"
    by (rule Contains_mid)
  moreover have "Contains (summary g (Error err) @ envModeMarker @ envRemediation @ envSteps g)
      envRemediation"
    using Contains_mid [of "summary g (Error err) @ envModeMarker" envRemediation "envSteps g"]
    by simp
  ultimately show ?thesis
    unfolding e by (simp add: newError_def)
qed

theorem explain_environment_mode_witness:
  "Contains (Error permissionError) (signature testGuidance) \<and>
   TrimSpace (Getenv envWorld ''CF_API_TOKEN'') \<noteq> [] \<and>
   Contains (Error (fst (explainZoneCreatePermissionError testGuidance envWorld permissionError
      initialState))) ''Auth mode detected: API token from environment'' \<and>
   Contains (Error (fst (explainZoneCreatePermissionError testGuidance envWorld permissionError
      initialState))) ''Use a token with zone-creation capability'' \<and>
   cmdLog (snd (explainZoneCreatePermissionError testGuidance envWorld permissionError
      initialState)) = []"
proof -
  have c: "Contains (Error permissionError) (signature testGuidance)"
    by (simp add: permissionError_def testGuidance_def)
  have e: "TrimSpace (Getenv envWorld ''CF_API_TOKEN'') \<noteq> []"
    by (simp add: envWorld_def Getenv_def trim_eval)
  then have d: "TrimSpace (Getenv envWorld ''CF_API_TOKEN'') \<noteq> [] \<or>
         TrimSpace (Getenv envWorld ''CLOUDFLARE_API_TOKEN'') \<noteq> []"
    by blast
  from explain_environment_mode [OF c d, of initialState] c e show ?thesis
    by (simp add: envModeMarker_def envRemediation_def initialState_def)
qed

text \<open>
  Claim C6. For an error whose message contains the signature, when neither token
  variable is set (absent, empty or blank), \<^verbatim>\<open>wrangler whoami\<close> is run once and the
  message of the result contains \<^verbatim>\<open>Auth mode detected: Wrangler token fallback\<close>. If the
  command succeeds, its output is part of the message as it is. If the command fails, the
  result is still the new error with the summary, the mode line and the remediation
  text, the same whatever the failure of the command was.
\<close>

theorem explain_fallback_mode:
  assumes "Contains (Error err) (signature g)"
    and "TrimSpace (Getenv w ''CF_API_TOKEN'') = []"
    and "TrimSpace (Getenv w ''CLOUDFLARE_API_TOKEN'') = []"
  shows "Contains (Error (fst (explainZoneCreatePermissionError g w err s))) toolModeMarker \<and>
         cmdLog (snd (explainZoneCreatePermissionError g w err s)) =
           cmdLog s @ [(''wrangler'', [''whoami''])] \<and>
         (\<forall>out. cmdOutput w (length (cmdLog s)) ''wrangler'' [''whoami''] = Inr out \<longrightarrow>
            Contains (Error (fst (explainZoneCreatePermissionError g w err s))) out) \<and>
         (\<forall>e. cmdOutput w (length (cmdLog s)) ''wrangler'' [''whoami''] = Inl e \<longrightarrow>
            fst (explainZoneCreatePermissionError g w err s) =
              GoError (errCount s) (summary g (Error err) @ toolModeMarker @ toolSteps g))"
proof -
  let ?r = "explainZoneCreatePermissionError g w err s"
  have "detectAuthMode w = ExternalToolFallback"
    using assms(2,3) by (simp add: detectAuthMode_def)
  with assms(1) have e: "?r =
      (case cmdOutput w (length (cmdLog s)) ''wrangler'' [''whoami''] of
         Inr out \<Rightarrow>
           newError (summary g (Error err) @ toolModeMarker @ toolSteps g @ out)
             (s\<lparr>cmdLog := cmdLog s @ [(''wrangler'', [''whoami''])]\<rparr>)
       | Inl e \<Rightarrow>
           newError (summary g (Error err) @ toolModeMarker @ toolSteps g)
             (s\<lparr>cmdLog := cmdLog s @ [(''wrangler'', [''whoami''])]\<rparr>))"
    by (rule explain_tool)
  have m1: "Contains (summary g (Error err) @ toolModeMarker @ toolSteps g @ out) toolModeMarker"
    for out by (rule Contains_mid)
  have m2: "Contains (summary g (Error err) @ toolModeMarker @ toolSteps g) toolModeMarker"
    by (rule Contains_mid)
  have m3: "Contains (summary g (Error err) @ toolModeMarker @ toolSteps g @ out) out" for out
    using Contains_end [of "summary g (Error err) @ toolModeMarker @ toolSteps g" out] by simp
  show ?thesis
  proof (cases "cmdOutput w (length (cmdLog s)) ''wrangler'' [''whoami'']")
    case (Inl e')
    with e have "?r = newError (summary g (Error err) @ toolModeMarker @ toolSteps g)
             (s\<lparr>cmdLog := cmdLog s @ [(''wrangler'', [''whoami''])]\<rparr>)"
      by simp
    with Inl m2 show ?thesis by (simp add: newError_def)
  next
    case (Inr out)
    with e have "?r = newError (summary g (Error err) @ toolModeMarker @ toolSteps g @ out)
             (s\<lparr>cmdLog := cmdLog s @ [(''wrangler'', [''whoami''])]\<rparr>)"
      by simp
    with Inr m1 [of out] m3 [of out] show ?thesis by (simp add: newError_def)
  qed
qed

theorem explain_fallback_mode_witness:
  "Contains (Error permissionError) (signature testGuidance) \<and>
   TrimSpace (Getenv wranglerWorld ''CF_API_TOKEN'') = [] \<and>
   TrimSpace (Getenv wranglerWorld ''CLOUDFLARE_API_TOKEN'') = [] \<and>
   cmdOutput wranglerWorld (length (cmdLog initialState)) ''wrangler'' [''whoami''] =
     Inr ''You are logged in with account example-account'' \<and>
   Contains (Error (fst (explainZoneCreatePermissionError testGuidance wranglerWorld
      permissionError initialState))) ''Auth mode detected: Wrangler token fallback'' \<and>
   Contains (Error (fst (explainZoneCreatePermissionError testGuidance wranglerWorld
      permissionError initialState))) ''You are logged in with account example-account'' \<and>
   cmdOutput offlineWorld (length (cmdLog initialState)) ''wrangler'' [''whoami''] =
     Inl (GoError 900 ''exec: executable file not found in $PATH'') \<and>
   fst (explainZoneCreatePermissionError testGuidance offlineWorld permissionError initialState) =
     GoError 0 (summary testGuidance (Error permissionError) @ toolModeMarker @
                toolSteps testGuidance) \<and>
   Contains (Error (fst (explainZoneCreatePermissionError testGuidance offlineWorld
      permissionError initialState))) ''Auth mode detected: Wrangler token fallback''"
proof -
  have c: "Contains (Error permissionError) (signature testGuidance)"
    by (simp add: permissionError_def testGuidance_def)
  have w1: "TrimSpace (Getenv wranglerWorld ''CF_API_TOKEN'') = []"
    and w2: "TrimSpace (Getenv wranglerWorld ''CLOUDFLARE_API_TOKEN'') = []"
    by (simp_all add: wranglerWorld_def offlineWorld_def Getenv_def TrimSpace_Nil)
  have o1: "TrimSpace (Getenv offlineWorld ''CF_API_TOKEN'') = []"
    and o2: "TrimSpace (Getenv offlineWorld ''CLOUDFLARE_API_TOKEN'') = []"
    by (simp_all add: offlineWorld_def Getenv_def TrimSpace_Nil)
  have w3: "cmdOutput wranglerWorld (length (cmdLog initialState)) ''wrangler'' [''whoami''] =
     Inr ''You are logged in with account example-account''"
    by (simp add: wranglerWorld_def)
  have o3: "cmdOutput offlineWorld (length (cmdLog initialState)) ''wrangler'' [''whoami''] =
     Inl (GoError 900 ''exec: executable file not found in $PATH'')"
    by (simp add: offlineWorld_def)
  have z: "errCount initialState = 0"
    by (simp add: initialState_def)
  note W = explain_fallback_mode [OF c w1 w2, of initialState]
  note F = explain_fallback_mode [OF c o1 o2, of initialState]
  have "Contains (Error (fst (explainZoneCreatePermissionError testGuidance wranglerWorld
      permissionError initialState))) ''Auth mode detected: Wrangler token fallback''"
    using W by (simp add: toolModeMarker_def)
  moreover have "Contains (Error (fst (explainZoneCreatePermissionError testGuidance wranglerWorld
      permissionError initialState))) ''You are logged in with account example-account''"
    using W w3 by blast
  moreover have "fst (explainZoneCreatePermissionError testGuidance offlineWorld permissionError
      initialState) =
     GoError 0 (summary testGuidance (Error permissionError) @ toolModeMarker @
                toolSteps testGuidance)"
    using F o3 z by simp
  moreover have "Contains (Error (fst (explainZoneCreatePermissionError testGuidance offlineWorld
      permissionError initialState))) ''Auth mode detected: Wrangler token fallback''"
    using F by (simp add: toolModeMarker_def)
  ultimately show ?thesis
    using c w1 w2 w3 o3 by blast
qed

text \<open>
  Claim C8. The diagnosis leaves both caches as they are, for every error and every
  state, and the error it returns does not depend on what the caches hold: the mode comes
  from the environment alone.
\<close>

theorem explain_keeps_caches:
  "cachedAPIToken (snd (explainZoneCreatePermissionError g w err s)) = cachedAPIToken s \<and>
   cachedAccountID (snd (explainZoneCreatePermissionError g w err s)) = cachedAccountID s \<and>
   fst (explainZoneCreatePermissionError g w err (s\<lparr>cachedAPIToken := t, cachedAccountID := a\<rparr>)) =
     fst (explainZoneCreatePermissionError g w err s)"
proof -
  obtain e s' where r: "explainZoneCreatePermissionError g w err s = (e, s')"
    by (cases "explainZoneCreatePermissionError g w err s")
  have "cachedAPIToken s' = cachedAPIToken s \<and> cachedAccountID s' = cachedAccountID s"
    using r by (rule explain_frame)
  moreover have "fst (explainZoneCreatePermissionError g w err
        (s\<lparr>cachedAPIToken := t, cachedAccountID := a\<rparr>)) =
      fst (explainZoneCreatePermissionError g w err s)"
    by (simp add: explainZoneCreatePermissionError_def newError_def runCommand_def
          split: AuthMode.splits sum.splits)
  ultimately show ?thesis using r by simp
qed

text \<open>
  The cache holds a token read from the environment earlier in the run; the variable is
  gone by now, and the diagnosis reports the fallback mode. Conversely the cache holds
  the token of Wrangler, the variable is set by now, and the diagnosis reports the
  environment mode.
\<close>

theorem explain_keeps_caches_witness:
  "cachedAPIToken (snd (explainZoneCreatePermissionError testGuidance wranglerWorld permissionError
      (initialState\<lparr>cachedAPIToken := ''test-token'', cachedAccountID := ''acct-9''\<rparr>))) =
     ''test-token'' \<and>
   cachedAccountID (snd (explainZoneCreatePermissionError testGuidance wranglerWorld
      permissionError
      (initialState\<lparr>cachedAPIToken := ''test-token'', cachedAccountID := ''acct-9''\<rparr>))) =
     ''acct-9'' \<and>
   Contains (Error (fst (explainZoneCreatePermissionError testGuidance wranglerWorld
      permissionError
      (initialState\<lparr>cachedAPIToken := ''test-token'', cachedAccountID := ''acct-9''\<rparr>))))
     ''Auth mode detected: Wrangler token fallback'' \<and>
   Contains (Error (fst (explainZoneCreatePermissionError testGuidance envWorld permissionError
      (initialState\<lparr>cachedAPIToken := ''tok-123'', cachedAccountID := []\<rparr>))))
     ''Auth mode detected: API token from environment''"
proof -
  let ?cached = "initialState\<lparr>cachedAPIToken := ''test-token'', cachedAccountID := ''acct-9''\<rparr>"
  have c: "Contains (Error permissionError) (signature testGuidance)"
    by (simp add: permissionError_def testGuidance_def)
  have "detectAuthMode wranglerWorld = ExternalToolFallback"
    by (simp add: detectAuthMode_def wranglerWorld_def offlineWorld_def Getenv_def TrimSpace_Nil)
  with c have "explainZoneCreatePermissionError testGuidance wranglerWorld permissionError
      initialState =
        newError (summary testGuidance (Error permissionError) @ toolModeMarker @
                  toolSteps testGuidance @ ''You are logged in with account example-account'')
          (initialState\<lparr>cmdLog := cmdLog initialState @ [(''wrangler'', [''whoami''])]\<rparr>)"
    by (simp add: explain_tool wranglerWorld_def)
  then have "Contains (Error (fst (explainZoneCreatePermissionError testGuidance wranglerWorld
      permissionError initialState))) toolModeMarker"
    by (simp add: newError_def Contains_mid)
  then have tool: "Contains (Error (fst (explainZoneCreatePermissionError testGuidance
      wranglerWorld permissionError ?cached))) ''Auth mode detected: Wrangler token fallback''"
    using explain_keeps_caches [where g = testGuidance and w = wranglerWorld
        and err = permissionError and s = initialState and t = "''test-token''"
        and a = "''acct-9''"]
    by (simp add: toolModeMarker_def)
  have "detectAuthMode envWorld = EnvironmentToken"
    by (simp add: detectAuthMode_def envWorld_def Getenv_def trim_eval)
  with c have "explainZoneCreatePermissionError testGuidance envWorld permissionError
      initialState =
        newError (summary testGuidance (Error permissionError) @ envModeMarker @
                  envRemediation @ envSteps testGuidance) initialState"
    by (rule explain_env)
  then have "Contains (Error (fst (explainZoneCreatePermissionError testGuidance envWorld
      permissionError initialState))) envModeMarker"
    by (simp add: newError_def Contains_mid)
  then have env: "Contains (Error (fst (explainZoneCreatePermissionError testGuidance envWorld
      permissionError (initialState\<lparr>cachedAPIToken := ''tok-123'', cachedAccountID := []\<rparr>))))
      ''Auth mode detected: API token from environment''"
    using explain_keeps_caches [where g = testGuidance and w = envWorld
        and err = permissionError and s = initialState and t = "''tok-123''" and a = "[]"]
    by (simp add: envModeMarker_def)
  from explain_keeps_caches [where g = testGuidance and w = wranglerWorld
      and err = permissionError and s = ?cached] tool env
  show ?thesis by simp
qed

end
